theory Spec2Isabelle
  imports Complex_Main "HOL-Library.Log_Nat"
begin

section \<open>JavaScript numbers\<close>

text \<open>
  The memory manager (\<^verbatim>\<open>memoryManager.ts\<close>) computes every score with JavaScript
  numbers, which are IEEE-754 binary64 values. A finite binary64 value is a real number,
  and an arithmetic operation returns the exact result rounded to the nearest value with
  a 53-bit significand, ties going to the even significand. \<open>binary64\<close> is that rounding,
  \<open>js_add\<close>, \<open>js_sub\<close> and \<open>js_mul\<close> are the rounded operations, and a decimal literal
  \<^verbatim>\<open>0.3\<close> of the source is \<open>binary64 0.3\<close>.

  The exponent range is not bounded here: the model agrees with binary64 as long as no
  result reaches \<open>2 ^ 1024\<close> or falls below \<open>2 ^ - 1022\<close> in magnitude, which is the case
  for scores near the unit interval, for time stamps in milliseconds and for usage counts.
  Division by zero gives no finite value (\<^verbatim>\<open>NaN\<close> or an infinity): \<open>js_div\<close> returns
  \<open>None\<close> there.
\<close>

type_synonym number = real

definition round_half_even :: "real \<Rightarrow> int" where
  "round_half_even r =
     (let f = \<lfloor>r\<rfloor>; d = r - of_int f in
      if d < 1 / 2 then f
      else if 1 / 2 < d then f + 1
      else if even f then f else f + 1)"

definition exponent :: "real \<Rightarrow> int" where
  "exponent x =
     (let a = \<bar>x\<bar> in
      if 1 \<le> a then int (floorlog 2 (nat \<lfloor>a\<rfloor>)) - 1
      else - int (floorlog 2 (nat (\<lceil>1 / a\<rceil> - 1))))"

definition binary64 :: "real \<Rightarrow> number" where
  "binary64 x =
     (if x = 0 then 0
      else let u = 2 powi (exponent x - 52) in u * of_int (round_half_even (x / u)))"

definition js_add :: "number \<Rightarrow> number \<Rightarrow> number" where
  "js_add a b = binary64 (a + b)"

definition js_sub :: "number \<Rightarrow> number \<Rightarrow> number" where
  "js_sub a b = binary64 (a - b)"

definition js_mul :: "number \<Rightarrow> number \<Rightarrow> number" where
  "js_mul a b = binary64 (a * b)"

definition js_div :: "number \<Rightarrow> number \<Rightarrow> number option" where
  "js_div a b = (if b = 0 then None else Some (binary64 (a / b)))"

text \<open>
  \<^verbatim>\<open>x || d\<close> on numbers: \<^verbatim>\<open>undefined\<close>, \<^verbatim>\<open>NaN\<close> (both \<open>None\<close>) and \<open>0\<close> are falsy.
\<close>

definition or_default :: "'a::zero option \<Rightarrow> 'a \<Rightarrow> 'a" where
  "or_default x d = (case x of None \<Rightarrow> d | Some v \<Rightarrow> if v = 0 then d else v)"

section \<open>JavaScript strings\<close>

text \<open>
  A string is the list of its UTF-16 code units; the model covers the code units below
  256 (Latin-1), one \<open>char\<close> each, so that \<^verbatim>\<open>content.length\<close> is \<open>length content\<close>.
  \<^verbatim>\<open>toLowerCase\<close> maps \<^verbatim>\<open>A\<close>-\<^verbatim>\<open>Z\<close> and the Latin-1 capitals (192 to 222 except 215) to
  the letter 32 places further, which sets the bit of weight 32.
\<close>

fun toLowerChar :: "char \<Rightarrow> char" where
  "toLowerChar (Char b0 b1 b2 b3 b4 b5 b6 b7) =
     (let n = of_char (Char b0 b1 b2 b3 b4 b5 b6 b7) :: nat in
      if (65 \<le> n \<and> n \<le> 90) \<or> (192 \<le> n \<and> n \<le> 222 \<and> n \<noteq> 215)
      then Char b0 b1 b2 b3 b4 True b6 b7
      else Char b0 b1 b2 b3 b4 b5 b6 b7)"

definition toLowerCase :: "string \<Rightarrow> string" where
  "toLowerCase s = map toLowerChar s"

fun starts_with :: "string \<Rightarrow> string \<Rightarrow> bool" where
  "starts_with s [] = True"
| "starts_with [] (k # ks) = False"
| "starts_with (c # s) (k # ks) = (c = k \<and> starts_with s ks)"

fun includes_str :: "string \<Rightarrow> string \<Rightarrow> bool" where
  "includes_str [] k = (k = [])"
| "includes_str (c # s) k = (starts_with (c # s) k \<or> includes_str s k)"

text \<open>Decimal rendering of a number that is an integer, as a template literal does it.\<close>

function decimal :: "nat \<Rightarrow> string" where
  "decimal n =
     (if n < 10 then [''0123456789'' ! n]
      else decimal (n div 10) @ [''0123456789'' ! (n mod 10)])"
  by pat_completeness auto
termination
  by (relation "measure (\<lambda>n. n)") auto

definition show_int :: "int \<Rightarrow> string" where
  "show_int i = (if i < 0 then CHR ''-'' # decimal (nat (- i)) else decimal (nat i))"

text \<open>
  \<^verbatim>\<open>xs.slice(0, e)\<close> for an integer \<open>e\<close>: a negative end counts from the end of the
  array.
\<close>

definition slice0 :: "'a list \<Rightarrow> int \<Rightarrow> 'a list" where
  "slice0 xs e = (if e < 0 then take (nat (int (length xs) + e)) xs else take (nat e) xs)"

text \<open>
  \<^verbatim>\<open>xs.sort(cmp)\<close>: the sort of the language is stable, and for a comparator that is a
  total preorder its result is the one stable ordering, which insertion from the right
  computes: an element stays in front of the elements behind it unless the comparator is
  positive.
\<close>

fun insert_by :: "('a \<Rightarrow> 'a \<Rightarrow> number) \<Rightarrow> 'a \<Rightarrow> 'a list \<Rightarrow> 'a list" where
  "insert_by cmp x [] = [x]"
| "insert_by cmp x (y # ys) = (if cmp x y \<le> 0 then x # y # ys else y # insert_by cmp x ys)"

definition sort_by :: "('a \<Rightarrow> 'a \<Rightarrow> number) \<Rightarrow> 'a list \<Rightarrow> 'a list" where
  "sort_by cmp xs = foldr (insert_by cmp) xs []"

section \<open>Data model (\<^verbatim>\<open>memory.ts\<close>)\<close>

datatype emotion = Happy | Sad | Angry | Neutral | Excited | Anxious | Curious

fun emotion_name :: "emotion \<Rightarrow> string" where
  "emotion_name Happy = ''happy''"
| "emotion_name Sad = ''sad''"
| "emotion_name Angry = ''angry''"
| "emotion_name Neutral = ''neutral''"
| "emotion_name Excited = ''excited''"
| "emotion_name Anxious = ''anxious''"
| "emotion_name Curious = ''curious''"

datatype source_type = User_input | System_generated | Tool_output | Conversation

datatype write_method = Manual | Automatic | Importance_detected

text \<open>
  The two time stamps are ISO strings in the source, written by \<^verbatim>\<open>toISOString\<close> and read
  back by \<^verbatim>\<open>getTime\<close>; the model keeps the milliseconds since the epoch they stand for,
  integers of a magnitude below \<open>2 ^ 53\<close> that a number of the language holds exactly.
  \<open>memory_id\<close> is the field \<^verbatim>\<open>id\<close>. \<open>usage_count\<close> is a number like the scores: the
  count of a new record is 1, and an access adds 1 with the addition of the language.
\<close>

record MemoryRecord =
  memory_id :: string
  user_id :: string
  title :: string
  content :: string
  embedding :: "number list option"
  importance_score :: number
  emotion_flag :: emotion
  date_created :: int
  last_accessed :: int
  usage_count :: number
  decay_rate :: number
  context_tags :: "string list"
  source_type :: source_type
  write_method :: write_method
  dream_state :: bool

text \<open>What \<^verbatim>\<open>retrieveMemories\<close> and \<^verbatim>\<open>getAllMemories\<close> return: a copy with one more field.\<close>

record RankedMemory = MemoryRecord +
  current_importance :: number

record MemoryStats =
  total_memories :: int
  active_memories :: int
  decayed_memories :: int
  average_importance :: number
  emotional_distribution :: "emotion \<rightharpoonup> nat"
  recent_activity :: int

record MemoryQuery =
  query_content :: "string option"
  query_emotion :: "string option"
  query_context_tags :: "string list option"
  min_importance :: "number option"
  limit :: "int option"

section \<open>The memory manager (\<^verbatim>\<open>memoryManager.ts\<close>)\<close>

text \<open>
  The state of a \<^verbatim>\<open>MemoryManager\<close> is its array \<^verbatim>\<open>memories\<close>, a list of records in
  insertion order. A method that changes it returns the new list beside its result.
  A method that reads the clock (\<^verbatim>\<open>Date.now()\<close>, \<^verbatim>\<open>new Date()\<close>) takes the reading as
  its argument \<open>now\<close>: one reading for a call, as if the clock stood still while the
  method runs. Writing to the console is left out.
\<close>

definition currentUserId :: string where
  "currentUserId = ''lyra-user-001''"

definition calculateImportance :: "number \<Rightarrow> number \<Rightarrow> number \<Rightarrow> number \<Rightarrow> number" where
  "calculateImportance emotionalWeight usageFrequency recency crossConnections =
     min 1
       (js_add
         (js_add
           (js_add (js_mul emotionalWeight (binary64 0.3)) (js_mul usageFrequency (binary64 0.2)))
           (js_mul recency (binary64 0.2)))
         (js_mul crossConnections (binary64 0.3)))"

fun emotionalWeights :: "emotion \<Rightarrow> number" where
  "emotionalWeights Happy = binary64 0.7"
| "emotionalWeights Excited = binary64 0.8"
| "emotionalWeights Anxious = binary64 0.9"
| "emotionalWeights Angry = binary64 0.85"
| "emotionalWeights Sad = binary64 0.75"
| "emotionalWeights Curious = binary64 0.6"
| "emotionalWeights Neutral = binary64 0.3"

definition getEmotionalWeight :: "emotion \<Rightarrow> number" where
  "getEmotionalWeight emotion = or_default (Some (emotionalWeights emotion)) (binary64 0.3)"

definition calculateDecay :: "int \<Rightarrow> 'a MemoryRecord_scheme \<Rightarrow> number" where
  "calculateDecay now memory =
     (let timeSinceAccess = js_sub (of_int now) (of_int (last_accessed memory));
          daysSinceAccess = binary64 (timeSinceAccess / (1000 * 60 * 60 * 24));
          baseDamping = binary64 0.05;
          usageProtection =
            min (binary64 0.8) (js_mul (usage_count memory) (binary64 0.1));
          emotionalProtection =
            js_mul (getEmotionalWeight (emotion_flag memory)) (binary64 0.2);
          effectiveDecay =
            js_mul baseDamping (js_sub (js_sub 1 usageProtection) emotionalProtection)
      in max 0 (js_sub (importance_score memory) (js_mul effectiveDecay daysSinceAccess)))"

text \<open>
  In \<open>detectImportance\<close> and \<open>createMemory\<close> the parameters \<^verbatim>\<open>content\<close> and \<^verbatim>\<open>title\<close>
  are written \<open>content'\<close> and \<open>title'\<close>, since the plain names are the fields of a record.
\<close>

definition importanceKeywords :: "string list" where
  "importanceKeywords =
     [''important'', ''critical'', ''urgent'', ''remember'', ''never forget'',
      ''warning'', ''danger'', ''emergency'', ''secret'', ''password'', ''key'']"

definition emotionalKeywords :: "string list" where
  "emotionalKeywords =
     [''love'', ''hate'', ''fear'', ''joy'', ''anger'', ''excited'', ''worried'']"

definition detectImportance :: "string \<Rightarrow> number" where
  "detectImportance content' =
     (let score = binary64 0.3;
          score = fold (\<lambda>keyword score.
                    if includes_str (toLowerCase content') keyword
                    then js_add score (binary64 0.2) else score)
                  importanceKeywords score;
          score = fold (\<lambda>keyword score.
                    if includes_str (toLowerCase content') keyword
                    then js_add score (binary64 0.15) else score)
                  emotionalKeywords score;
          score = (if length content' > 200 then js_add score (binary64 0.1) else score);
          score = (if length content' > 500 then js_add score (binary64 0.1) else score)
      in min 1 score)"

text \<open>
  \<^verbatim>\<open>createMemory\<close> reads the clock twice, for the time stamps (\<open>now\<close>) and for the
  identifier (\<open>id_now\<close>), and draws the nine characters \<open>random\<close> that end the identifier.
  Its three last parameters have default values. The tags of the new record are those of
  \<^verbatim>\<open>extractContextTags\<close>, a function of the content alone that always returns. It is
  the parameter \<open>extractContextTags\<close> here, so that every property below holds whatever
  tags it returns.
\<close>

definition createMemory ::
  "(string \<Rightarrow> string list) \<Rightarrow> int \<Rightarrow> int \<Rightarrow> string \<Rightarrow>
   string \<Rightarrow> string \<Rightarrow> emotion option \<Rightarrow> source_type option \<Rightarrow> write_method option \<Rightarrow>
   MemoryRecord list \<Rightarrow> MemoryRecord \<times> MemoryRecord list" where
  "createMemory extractContextTags now id_now random title' content' emotion sourceType writeMethod
     memories =
     (let importance = detectImportance content';
          contextTags = extractContextTags content';
          memory = \<lparr>
            memory_id = ''mem_'' @ show_int id_now @ ''_'' @ random,
            user_id = currentUserId,
            title = title',
            content = content',
            embedding = None,
            importance_score = importance,
            emotion_flag = (case emotion of None \<Rightarrow> Neutral | Some e \<Rightarrow> e),
            date_created = now,
            last_accessed = now,
            usage_count = 1,
            decay_rate = binary64 0.05,
            context_tags = contextTags,
            source_type = (case sourceType of None \<Rightarrow> User_input | Some s \<Rightarrow> s),
            write_method = (case writeMethod of None \<Rightarrow> Manual | Some w \<Rightarrow> w),
            dream_state = False \<rparr>
      in (memory, memories @ [memory]))"

definition with_current_importance :: "int \<Rightarrow> MemoryRecord \<Rightarrow> RankedMemory" where
  "with_current_importance now memory =
     MemoryRecord.extend memory
       (RankedMemory.fields (calculateDecay now memory))"

text \<open>
  The fields of a query are optional, \<open>None\<close> standing for \<^verbatim>\<open>undefined\<close>; the limit is
  taken to be an integer. The filter of \<^verbatim>\<open>retrieveMemories\<close>. A criterion that is \<^verbatim>\<open>undefined\<close>, a
  \<open>min_importance\<close> of 0 and an empty string are falsy and filter nothing; a list of
  tags, also the empty one, is truthy.
\<close>

definition matches :: "MemoryQuery \<Rightarrow> RankedMemory \<Rightarrow> bool" where
  "matches query memory =
     (if (case min_importance query of None \<Rightarrow> False
          | Some v \<Rightarrow> v \<noteq> 0 \<and> current_importance memory < v) then False
      else if (case query_emotion query of None \<Rightarrow> False
               | Some e \<Rightarrow> e \<noteq> [] \<and> emotion_name (emotion_flag memory) \<noteq> e) then False
      else if (case query_content query of None \<Rightarrow> False
               | Some c \<Rightarrow> c \<noteq> [] \<and>
                   \<not> includes_str (toLowerCase (content memory)) (toLowerCase c)) then False
      else if (case query_context_tags query of None \<Rightarrow> False
               | Some tags \<Rightarrow> \<not> list_ex (\<lambda>tag. tag \<in> set (context_tags memory)) tags) then False
      else True)"

definition retrieveMemories ::
  "int \<Rightarrow> MemoryQuery \<Rightarrow> MemoryRecord list \<Rightarrow> RankedMemory list \<times> MemoryRecord list" where
  "retrieveMemories now query memories =
     (slice0
        (sort_by (\<lambda>a b. js_sub (current_importance b) (current_importance a))
           (filter (matches query) (map (with_current_importance now) memories)))
        (or_default (limit query) 10),
      memories)"

definition accessMemory ::
  "int \<Rightarrow> string \<Rightarrow> MemoryRecord list \<Rightarrow> MemoryRecord option \<times> MemoryRecord list" where
  "accessMemory now memoryId memories =
     (case List.extract (\<lambda>m. memory_id m = memoryId) memories of
        None \<Rightarrow> (None, memories)
      | Some (before, memory, after) \<Rightarrow>
          (let memory = memory\<lparr>usage_count := js_add (usage_count memory) 1\<rparr>;
               memory = memory\<lparr>last_accessed := now\<rparr>;
               memory = memory\<lparr>importance_score :=
                          min 1 (js_add (importance_score memory) (binary64 0.05))\<rparr>
           in (Some memory, before @ memory # after)))"

definition getMemoryStats :: "int \<Rightarrow> MemoryRecord list \<Rightarrow> MemoryStats" where
  "getMemoryStats now memories =
     (let activeMemories = filter (\<lambda>m. calculateDecay now m > binary64 0.1) memories;
          emotionalDist =
            fold (\<lambda>m acc. acc(emotion_flag m \<mapsto> or_default (acc (emotion_flag m)) 0 + 1))
              memories Map.empty
      in \<lparr> total_memories = int (length memories),
           active_memories = int (length activeMemories),
           decayed_memories = int (length memories) - int (length activeMemories),
           average_importance =
             or_default
               (js_div (fold (\<lambda>m sum. js_add sum (calculateDecay now m)) memories 0)
                  (of_nat (length memories)))
               0,
           emotional_distribution = emotionalDist,
           recent_activity =
             int (length (filter
               (\<lambda>m. js_sub (of_int now) (of_int (last_accessed m)) < 24 * 60 * 60 * 1000)
               memories)) \<rparr>)"

definition dreamStateProcessing :: "MemoryRecord list \<Rightarrow> MemoryRecord list" where
  "dreamStateProcessing memories =
     (let memories =
            map (\<lambda>memory.
                  if usage_count memory > 3
                  then memory\<lparr>importance_score :=
                         min 1 (js_add (importance_score memory) (binary64 0.02))\<rparr>
                  else memory)
              memories;
          memories = map (\<lambda>memory. memory\<lparr>dream_state := True\<rparr>) memories
      in memories)"

definition getAllMemories :: "int \<Rightarrow> MemoryRecord list \<Rightarrow> RankedMemory list" where
  "getAllMemories now memories = map (with_current_importance now) memories"

section \<open>Notions used by the properties\<close>

text \<open>
  The record of the scenarios: created at time 1700000000000 from the content
  \<^verbatim>\<open>This is urgent, remember the password!\<close> with the emotion \<^verbatim>\<open>anxious\<close>, by a tag
  extractor that finds no tag.
\<close>

definition scenario_memory :: MemoryRecord where
  "scenario_memory =
     fst (createMemory (\<lambda>c. []) 1700000000000 1700000000001 ''k3j9x0q2z''
            ''Login'' ''This is urgent, remember the password!'' (Some Anxious) None None [])"

text \<open>
  A second record, created at the same time from the content \<^verbatim>\<open>hello\<close>, which holds
  no keyword.
\<close>

definition plain_memory :: MemoryRecord where
  "plain_memory =
     fst (createMemory (\<lambda>c. []) 1700000000000 1700000000002 ''p0o9i8u7y''
            ''Greeting'' ''hello'' None None None [])"

text \<open>
  The order of a ranking: \<open>a\<close> may stand before \<open>b\<close> when its effective importance is
  not smaller. And the query that has no filter, with a given limit.
\<close>

definition rank_order :: "RankedMemory \<Rightarrow> RankedMemory \<Rightarrow> bool" where
  "rank_order a b = (current_importance b \<le> current_importance a)"

definition no_filter :: "int option \<Rightarrow> MemoryQuery" where
  "no_filter l =
     \<lparr>query_content = None, query_emotion = None, query_context_tags = None,
      min_importance = None, limit = l\<rparr>"

text \<open>The fields of a record other than \<open>importance_score\<close> and \<open>dream_state\<close>.\<close>

definition unchanged_fields ::
  "MemoryRecord \<Rightarrow>
   string \<times> string \<times> string \<times> string \<times> number list option \<times> emotion \<times> int \<times> int \<times>
   number \<times> number \<times> string list \<times> source_type \<times> write_method" where
  "unchanged_fields m =
     (memory_id m, user_id m, title m, content m, embedding m, emotion_flag m, date_created m,
      last_accessed m, usage_count m, decay_rate m, context_tags m, source_type m,
      write_method m)"

text \<open>
  Two intermediate values of \<open>calculateDecay\<close>, as functions of what they depend on: the
  days since the last access at the time \<open>now\<close>, and the effective decay rate of a record.
\<close>

definition daysSinceAccess :: "int \<Rightarrow> 'a MemoryRecord_scheme \<Rightarrow> number" where
  "daysSinceAccess now memory =
     binary64 (js_sub (of_int now) (of_int (last_accessed memory)) / (1000 * 60 * 60 * 24))"

definition effectiveDecay :: "'a MemoryRecord_scheme \<Rightarrow> number" where
  "effectiveDecay memory =
     js_mul (binary64 0.05)
       (js_sub (js_sub 1 (min (binary64 0.8) (js_mul (usage_count memory) (binary64 0.1))))
          (js_mul (getEmotionalWeight (emotion_flag memory)) (binary64 0.2)))"

text \<open>
  The formula of the specification for \<open>detectImportance\<close>, in exact arithmetic: a base of
  0.3, 0.2 for each importance keyword and 0.15 for each emotional keyword that occurs in
  the content without regard to case, 0.1 for a length above 200 and 0.1 more for a length
  above 500, at most 1. The keywords of each list are distinct, so \<open>keyword_hits\<close> counts
  the distinct keywords that occur.
\<close>

definition keyword_hits :: "string list \<Rightarrow> string \<Rightarrow> nat" where
  "keyword_hits keywords content' =
     length (filter (\<lambda>keyword. includes_str (toLowerCase content') keyword) keywords)"

definition importance_formula :: "string \<Rightarrow> real" where
  "importance_formula content' =
     min 1 (0.3 + 0.2 * of_nat (keyword_hits importanceKeywords content')
                + 0.15 * of_nat (keyword_hits emotionalKeywords content')
                + (if length content' > 200 then 0.1 else 0)
                + (if length content' > 500 then 0.1 else 0))"

text \<open>
  The invariant of a record and of a store, and the stores that the operations of the
  manager build from the empty one.
\<close>

definition record_ok :: "MemoryRecord \<Rightarrow> bool" where
  "record_ok m = (0 \<le> importance_score m \<and> importance_score m \<le> 1 \<and> 1 \<le> usage_count m)"

definition store_ok :: "MemoryRecord list \<Rightarrow> bool" where
  "store_ok memories = list_all record_ok memories"

inductive reachable :: "MemoryRecord list \<Rightarrow> bool" where
  initial: "reachable []"
| create: "reachable memories \<Longrightarrow>
     reachable (snd (createMemory extractContextTags now id_now random title' content'
                       emotion sourceType writeMethod memories))"
| access: "reachable memories \<Longrightarrow> reachable (snd (accessMemory now memoryId memories))"
| retrieve: "reachable memories \<Longrightarrow> reachable (snd (retrieveMemories now query memories))"
| consolidate: "reachable memories \<Longrightarrow> reachable (dreamStateProcessing memories)"

text \<open>
  What an access and a consolidation pass make of one record, in the words of the
  specification.
\<close>

definition accessed :: "int \<Rightarrow> MemoryRecord \<Rightarrow> MemoryRecord" where
  "accessed now memory =
     memory\<lparr>usage_count := js_add (usage_count memory) 1,
            last_accessed := now,
            importance_score := min 1 (js_add (importance_score memory) (binary64 0.05))\<rparr>"

definition consolidated :: "MemoryRecord \<Rightarrow> MemoryRecord" where
  "consolidated memory =
     memory\<lparr>importance_score :=
              (if usage_count memory > 3
               then min 1 (js_add (importance_score memory) (binary64 0.02))
               else importance_score memory),
            dream_state := True\<rparr>"

section \<open>Rounding to binary64\<close>

text \<open>
  Rounding to the nearest integer, ties to the even one, is monotone, exact on integers,
  odd, and never off by more than one half.
\<close>

lemma rhe_of_int: "round_half_even (of_int n) = n"
  by (simp add: round_half_even_def)

lemma rhe_lower: "\<lfloor>r\<rfloor> \<le> round_half_even r"
  by (simp add: round_half_even_def Let_def)

lemma rhe_upper: "round_half_even r \<le> \<lfloor>r\<rfloor> + 1"
  by (simp add: round_half_even_def Let_def)

lemma rhe_mono: "r \<le> s \<Longrightarrow> round_half_even r \<le> round_half_even s"
proof -
  assume rs: "r \<le> s"
  then have fg: "\<lfloor>r\<rfloor> \<le> \<lfloor>s\<rfloor>" by (rule floor_mono)
  show ?thesis
  proof (cases "\<lfloor>r\<rfloor> = \<lfloor>s\<rfloor>")
    case True
    with rs show ?thesis
      by (auto simp add: round_half_even_def Let_def)
  next
    case False
    with fg have "\<lfloor>r\<rfloor> + 1 \<le> \<lfloor>s\<rfloor>" by simp
    with rhe_upper [of r] rhe_lower [of s] show ?thesis by linarith
  qed
qed

lemma rhe_error: "\<bar>of_int (round_half_even r) - r\<bar> \<le> 1 / 2"
proof -
  have "of_int \<lfloor>r\<rfloor> \<le> r" "r < of_int \<lfloor>r\<rfloor> + 1" by linarith+
  then show ?thesis
    by (auto simp add: round_half_even_def Let_def abs_le_iff)
qed

lemma rhe_minus: "round_half_even (- r) = - round_half_even r"
proof (cases "r = of_int \<lfloor>r\<rfloor>")
  case True
  then obtain n where "r = of_int n" ..
  then show ?thesis
    using rhe_of_int [of n] rhe_of_int [of "- n"] by simp
next
  case False
  then have lt: "of_int \<lfloor>r\<rfloor> < r" "r < of_int \<lfloor>r\<rfloor> + 1" by linarith+
  have fm: "\<lfloor>- r\<rfloor> = - \<lfloor>r\<rfloor> - 1"
  proof (rule floor_unique)
    show "of_int (- \<lfloor>r\<rfloor> - 1) \<le> - r"
      using lt(2) unfolding of_int_diff of_int_minus of_int_1 by linarith
    show "- r < of_int (- \<lfloor>r\<rfloor> - 1) + 1"
      using lt(1) unfolding of_int_diff of_int_minus of_int_1 by linarith
  qed
  show ?thesis
    using lt by (auto simp add: round_half_even_def Let_def fm)
qed

text \<open>
  The exponent of a number other than 0 is the one power of two at or below its
  magnitude with the next power above it. This gives the way to evaluate \<open>binary64\<close> at a
  number whose exponent is known.
\<close>

lemma exponent_bounds:
  assumes "x \<noteq> 0"
  shows "2 powi exponent x \<le> \<bar>x\<bar>" and "\<bar>x\<bar> < 2 powi (exponent x + 1)"
proof -
  define a where "a = \<bar>x\<bar>"
  have apos: "0 < a" using assms by (simp add: a_def)
  have "2 powi exponent x \<le> a \<and> a < 2 powi (exponent x + 1)"
  proof (cases "1 \<le> a")
    case True
    define k where "k = nat \<lfloor>a\<rfloor>"
    define n where "n = floorlog 2 k"
    from True have fl1: "1 \<le> \<lfloor>a\<rfloor>" by simp
    then have kpos: "0 < k" by (simp add: k_def)
    have b: "2 ^ (n - 1) \<le> k" "k < 2 ^ n"
      using floorlog_bounds [of k 2] kpos by (simp_all add: n_def)
    have npos: "0 < n" using kpos by (simp add: n_def floorlog_def)
    have e: "exponent x = int n - 1"
      using True by (simp add: exponent_def a_def [symmetric] n_def k_def)
    have ka: "(of_nat k :: real) = of_int \<lfloor>a\<rfloor>" using fl1 by (simp add: k_def)
    have "(2::real) ^ (n - 1) \<le> of_nat k" using b(1) by (metis of_nat_le_iff of_nat_numeral of_nat_power)
    also have "\<dots> \<le> a" unfolding ka by simp
    finally have lo: "(2::real) ^ (n - 1) \<le> a" .
    have "k + 1 \<le> 2 ^ n" using b(2) by simp
    then have "(of_nat (k + 1) :: real) \<le> 2 ^ n" by (metis of_nat_le_iff of_nat_numeral of_nat_power)
    moreover have "a < of_nat (k + 1)" using ka by (simp) linarith
    ultimately have hi: "a < (2::real) ^ n" by simp
    have p1: "(2::real) powi (int n - 1) = 2 ^ (n - 1)"
      using npos by (simp add: power_int_def nat_diff_distrib')
    have p2: "(2::real) powi (int n - 1 + 1) = 2 ^ n" by (simp add: power_int_def)
    show ?thesis using lo hi by (simp add: e p1 p2)
  next
    case False
    then have a1: "a < 1" by simp
    define m where "m = \<lceil>1 / a\<rceil>"
    define k where "k = nat (m - 1)"
    define n where "n = floorlog 2 k"
    have inv1: "1 < 1 / a" using apos a1 by (simp add: field_simps)
    then have m2: "2 \<le> m" unfolding m_def by linarith
    then have kpos: "0 < k" by (simp add: k_def)
    have b: "2 ^ (n - 1) \<le> k" "k < 2 ^ n"
      using floorlog_bounds [of k 2] kpos by (simp_all add: n_def)
    have npos: "0 < n" using kpos by (simp add: n_def floorlog_def)
    have e: "exponent x = - int n"
      using False by (simp add: exponent_def a_def [symmetric] n_def k_def m_def)
    have km: "(of_nat k :: real) = of_int m - 1" using m2 by (simp add: k_def)
    have "k + 1 \<le> 2 ^ n" using b(2) by simp
    then have "(of_nat (k + 1) :: real) \<le> 2 ^ n" by (metis of_nat_le_iff of_nat_numeral of_nat_power)
    then have mle: "of_int m \<le> (2::real) ^ n" using km by simp
    have "1 / a \<le> of_int m" unfolding m_def by linarith
    from this mle have "1 / a \<le> (2::real) ^ n" by (rule order_trans)
    then have lo: "1 / (2::real) ^ n \<le> a" using apos by (simp add: field_simps)
    have "(2::real) ^ (n - 1) \<le> of_nat k" using b(1) by (metis of_nat_le_iff of_nat_numeral of_nat_power)
    then have "(2::real) ^ (n - 1) \<le> of_int m - 1" unfolding km .
    moreover have "of_int m - 1 < 1 / a" unfolding m_def by linarith
    ultimately have "(2::real) ^ (n - 1) < 1 / a" by (rule le_less_trans)
    then have hi: "a < 1 / (2::real) ^ (n - 1)" using apos by (simp add: field_simps)
    have p1: "(2::real) powi (- int n) = 1 / 2 ^ n"
      by (simp add: power_int_def field_simps)
    have p2: "(2::real) powi (1 - int n) = 1 / 2 ^ (n - 1)"
      using npos by (simp add: power_int_def field_simps nat_diff_distrib')
    show ?thesis using lo hi by (simp add: e p1 p2)
  qed
  then show "2 powi exponent x \<le> \<bar>x\<bar>" and "\<bar>x\<bar> < 2 powi (exponent x + 1)"
    by (simp_all add: a_def)
qed

lemma pow2_pos: "(0::real) < 2 powi e"
  by simp

lemma pow2_less_iff: "(2::real) powi m < 2 powi n \<longleftrightarrow> m < n"
proof
  assume "(2::real) powi m < 2 powi n"
  show "m < n"
  proof (rule ccontr)
    assume "\<not> m < n"
    then have "(2::real) powi n \<le> 2 powi m" by (intro power_int_increasing) auto
    with \<open>(2::real) powi m < 2 powi n\<close> show False by simp
  qed
next
  assume "m < n"
  then show "(2::real) powi m < 2 powi n" by (intro power_int_strict_increasing) auto
qed

lemma pow2_le_iff: "(2::real) powi m \<le> 2 powi n \<longleftrightarrow> m \<le> n"
  using pow2_less_iff [of n m] by (auto simp add: not_less [symmetric])

lemma exponent_unique:
  assumes "2 powi e \<le> \<bar>x\<bar>" and "\<bar>x\<bar> < 2 powi (e + 1)"
  shows "exponent x = e"
proof -
  have "0 < \<bar>x\<bar>" using assms(1) pow2_pos [of e] by linarith
  then have x0: "x \<noteq> 0" by simp
  note b = exponent_bounds [OF x0]
  have "(2::real) powi e < 2 powi (exponent x + 1)" using assms(1) b(2) by linarith
  then have "e < exponent x + 1" by (simp only: pow2_less_iff)
  moreover have "(2::real) powi exponent x < 2 powi (e + 1)" using assms(2) b(1) by linarith
  then have "exponent x < e + 1" by (simp only: pow2_less_iff)
  ultimately show ?thesis by simp
qed

lemma binary64_eval:
  assumes "2 powi e \<le> \<bar>x\<bar>" and "\<bar>x\<bar> < 2 powi (e + 1)"
  shows "binary64 x = 2 powi (e - 52) * of_int (round_half_even (x / 2 powi (e - 52)))"
proof -
  have "0 < \<bar>x\<bar>" using assms(1) pow2_pos [of e] by linarith
  then have x0: "x \<noteq> 0" by simp
  show ?thesis using x0 by (simp add: binary64_def Let_def exponent_unique [OF assms])
qed

lemma exponent_minus: "exponent (- x) = exponent x"
  by (simp add: exponent_def)

lemma exponent_mono:
  assumes "0 < x" and "x \<le> y"
  shows "exponent x \<le> exponent y"
proof -
  have "2 powi exponent x \<le> \<bar>x\<bar>" using assms by (intro exponent_bounds) auto
  moreover have "\<bar>y\<bar> < 2 powi (exponent y + 1)" using assms by (intro exponent_bounds) auto
  ultimately have "(2::real) powi exponent x < 2 powi (exponent y + 1)" using assms by linarith
  then have "exponent x < exponent y + 1" by (simp only: pow2_less_iff)
  then show ?thesis by simp
qed

text \<open>
  Rounding to binary64 is odd, keeps the sign, is monotone, and has a relative error of at
  most \<open>2 ^ - 53\<close>.
\<close>

lemma binary64_minus: "binary64 (- x) = - binary64 x"
  by (simp add: binary64_def exponent_minus Let_def rhe_minus)

lemma binary64_pos_bounds:
  assumes "0 < x"
  shows "2 powi exponent x \<le> binary64 x" and "binary64 x \<le> 2 powi (exponent x + 1)"
proof -
  define e where "e = exponent x"
  define u :: real where "u = 2 powi (e - 52)"
  have upos: "0 < u" by (simp add: u_def)
  have x0: "x \<noteq> 0" using assms by simp
  have lo: "u * 2 ^ 52 = 2 powi e"
    by (simp add: u_def power_int_diff)
  have hi: "u * 2 ^ 53 = 2 powi (e + 1)"
    by (simp add: u_def power_int_diff power_int_add)
  have fl: "binary64 x = u * of_int (round_half_even (x / u))"
    using x0 by (simp add: binary64_def Let_def e_def u_def)
  have b: "2 powi e \<le> x" "x < 2 powi (e + 1)"
    using exponent_bounds [OF x0] assms by (simp_all add: e_def)
  have "of_int (2 ^ 52) \<le> x / u"
    using b(1) upos by (simp add: pos_le_divide_eq lo [symmetric] mult.commute)
  then have "round_half_even (of_int (2 ^ 52)) \<le> round_half_even (x / u)"
    by (rule rhe_mono)
  then have "2 ^ 52 \<le> round_half_even (x / u)" by (simp only: rhe_of_int)
  then have "(of_int (2 ^ 52) :: real) \<le> of_int (round_half_even (x / u))"
    by (simp only: of_int_le_iff)
  then have "(2::real) ^ 52 \<le> of_int (round_half_even (x / u))" by simp
  then have "u * 2 ^ 52 \<le> u * of_int (round_half_even (x / u))"
    using upos by (simp only: mult_le_cancel_left_pos)
  then show "2 powi exponent x \<le> binary64 x" by (simp only: fl lo e_def)
  have "x / u \<le> of_int (2 ^ 53)"
    using b(2) upos by (simp add: pos_divide_le_eq hi [symmetric] mult.commute)
  then have "round_half_even (x / u) \<le> round_half_even (of_int (2 ^ 53))"
    by (rule rhe_mono)
  then have "round_half_even (x / u) \<le> 2 ^ 53" by (simp only: rhe_of_int)
  then have "(of_int (round_half_even (x / u)) :: real) \<le> of_int (2 ^ 53)"
    by (simp only: of_int_le_iff)
  then have "of_int (round_half_even (x / u)) \<le> (2::real) ^ 53" by simp
  then have "u * of_int (round_half_even (x / u)) \<le> u * 2 ^ 53"
    using upos by (simp only: mult_le_cancel_left_pos)
  then show "binary64 x \<le> 2 powi (exponent x + 1)" by (simp only: fl hi e_def)
qed

lemma binary64_pos: "0 < x \<Longrightarrow> 0 < binary64 x"
  using binary64_pos_bounds(1) [of x] pow2_pos [of "exponent x"] by linarith

lemma binary64_zero: "binary64 0 = 0"
  by (simp add: binary64_def)

lemma binary64_neg: "x < 0 \<Longrightarrow> binary64 x < 0"
  using binary64_pos [of "- x"] by (simp add: binary64_minus)

lemma binary64_mono_pos:
  assumes "0 < x" and "x \<le> y"
  shows "binary64 x \<le> binary64 y"
proof (cases "exponent x = exponent y")
  case True
  define u :: real where "u = 2 powi (exponent y - 52)"
  have upos: "0 < u" by (simp add: u_def)
  have "x / u \<le> y / u" using assms(2) upos by (simp add: divide_right_mono)
  then have "round_half_even (x / u) \<le> round_half_even (y / u)" by (rule rhe_mono)
  then have "u * of_int (round_half_even (x / u)) \<le> u * of_int (round_half_even (y / u))"
    using upos by simp
  then show ?thesis using assms by (simp add: binary64_def Let_def True u_def)
next
  case False
  with exponent_mono [OF assms] have "exponent x + 1 \<le> exponent y" by simp
  then have "(2::real) powi (exponent x + 1) \<le> 2 powi exponent y"
    by (simp only: pow2_le_iff)
  moreover have "binary64 x \<le> 2 powi (exponent x + 1)"
    using assms by (intro binary64_pos_bounds) auto
  moreover have "2 powi exponent y \<le> binary64 y"
    using assms by (intro binary64_pos_bounds) auto
  ultimately show ?thesis by linarith
qed

lemma binary64_mono:
  assumes "x \<le> y"
  shows "binary64 x \<le> binary64 y"
proof -
  consider "0 < x" | "x \<le> 0" "0 \<le> y" | "y < 0" by linarith
  then show ?thesis
  proof cases
    case 1
    then show ?thesis using assms by (rule binary64_mono_pos)
  next
    case 2
    have "binary64 x \<le> 0"
      using 2(1) binary64_neg [of x] binary64_zero by (cases "x = 0") auto
    moreover have "0 \<le> binary64 y"
      using 2(2) binary64_pos [of y] binary64_zero by (cases "y = 0") auto
    ultimately show ?thesis by simp
  next
    case 3
    then have "0 < - y" "- y \<le> - x" using assms by auto
    then have "binary64 (- y) \<le> binary64 (- x)" by (rule binary64_mono_pos)
    then show ?thesis by (simp add: binary64_minus)
  qed
qed

lemma binary64_error: "\<bar>binary64 x - x\<bar> \<le> \<bar>x\<bar> / 2 ^ 53"
proof (cases "x = 0")
  case True
  then show ?thesis by (simp add: binary64_zero)
next
  case False
  define e where "e = exponent x"
  define u :: real where "u = 2 powi (e - 52)"
  have upos: "0 < u" by (simp add: u_def)
  have fl: "binary64 x = u * of_int (round_half_even (x / u))"
    using False by (simp add: binary64_def Let_def e_def u_def)
  have "binary64 x - x = u * (of_int (round_half_even (x / u)) - x / u)"
    using upos by (simp add: fl field_simps)
  then have "\<bar>binary64 x - x\<bar> = u * \<bar>of_int (round_half_even (x / u)) - x / u\<bar>"
    using upos by (simp add: abs_mult)
  also have "\<dots> \<le> u * (1 / 2)"
    using upos rhe_error [of "x / u"] by (simp only: mult_le_cancel_left_pos)
  also have "\<dots> = 2 powi e / 2 ^ 53"
    by (simp add: u_def power_int_diff)
  also have "\<dots> \<le> \<bar>x\<bar> / 2 ^ 53"
    using exponent_bounds(1) [OF False] by (simp add: e_def divide_right_mono)
  finally show ?thesis .
qed

text \<open>Consequences: bounds on a rounded value, and its sign.\<close>

lemma binary64_nonneg: "0 \<le> x \<Longrightarrow> 0 \<le> binary64 x"
  using binary64_mono [of 0 x] by (simp add: binary64_zero)

lemma binary64_upper: "0 \<le> x \<Longrightarrow> binary64 x \<le> x + x / 2 ^ 53"
  using binary64_error [of x] unfolding abs_le_iff by linarith

lemma binary64_lower: "0 \<le> x \<Longrightarrow> x - x / 2 ^ 53 \<le> binary64 x"
  using binary64_error [of x] unfolding abs_le_iff by linarith

lemma binary64_le_zero_iff: "binary64 x \<le> 0 \<longleftrightarrow> x \<le> 0"
  using binary64_pos [of x] binary64_neg [of x] binary64_zero
  by (cases "x = 0") (auto simp add: not_le [symmetric])

lemma binary64_one: "binary64 1 = 1"
  by (simp add: binary64_eval [of 0] round_half_even_def)

text \<open>
  Adding a step of at least one hundredth to a score of the unit interval raises it, and
  one rounded addition moves the distance to the exact sum by less than \<open>2 ^ - 50\<close>.
\<close>

lemma js_add_strict:
  assumes "0 \<le> s" and "s < 1" and "1 / 100 \<le> c" and "c \<le> 1"
  shows "s < min 1 (js_add s (binary64 c))"
proof -
  define c' where "c' = binary64 c"
  have c1: "c - c / 2 ^ 53 \<le> c'" unfolding c'_def using assms(3) by (intro binary64_lower) simp
  have c2: "99 / 10000 \<le> c'" using c1 assms(3) by simp
  have "s + c' - (s + c') / 2 ^ 53 \<le> binary64 (s + c')"
    using assms(1) c2 by (intro binary64_lower) simp
  moreover have "s < s + c' - (s + c') / 2 ^ 53" using assms(1,2) c2 by simp
  ultimately have "s < js_add s c'" unfolding js_add_def by linarith
  then show ?thesis using assms(2) by (simp add: c'_def)
qed

lemma js_add_step_error:
  assumes "\<bar>s - E\<bar> \<le> a" and "0 \<le> E" and "E \<le> 4" and "a \<le> 1" and "0 \<le> c" and "c \<le> 1 / 5"
  shows "\<bar>js_add s (binary64 c) - (E + c)\<bar> \<le> a + 1 / 2 ^ 50"
proof -
  define c' where "c' = binary64 c"
  have c1: "\<bar>c' - c\<bar> \<le> c / 2 ^ 53"
    using binary64_error [of c] assms(5) by (simp add: c'_def)
  have x: "\<bar>s + c'\<bar> \<le> 6"
    using assms c1 unfolding abs_le_iff by (simp; linarith?)
  have "\<bar>binary64 (s + c') - (s + c')\<bar> \<le> \<bar>s + c'\<bar> / 2 ^ 53"
    by (rule binary64_error)
  also have "\<dots> \<le> 6 / 2 ^ 53" using x by (simp add: divide_right_mono)
  finally have e: "\<bar>binary64 (s + c') - (s + c')\<bar> \<le> 6 / 2 ^ 53" .
  show ?thesis
    using e c1 assms unfolding js_add_def c'_def [symmetric] abs_le_iff by (simp; linarith?)
qed

lemma funpow_add_error:
  assumes "0 \<le> c" and "c \<le> 1 / 5"
  shows "\<bar>s - E\<bar> \<le> a \<Longrightarrow> 0 \<le> E \<Longrightarrow> E + of_nat n * c \<le> 4 \<Longrightarrow> a + of_nat n / 2 ^ 50 \<le> 1 \<Longrightarrow>
         \<bar>((\<lambda>s. js_add s (binary64 c)) ^^ n) s - (E + of_nat n * c)\<bar> \<le> a + of_nat n / 2 ^ 50"
proof (induction n)
  case 0
  then show ?case by simp
next
  case (Suc n)
  define t where "t = ((\<lambda>s. js_add s (binary64 c)) ^^ n) s"
  have nc: "0 \<le> of_nat n * c" using assms(1) by simp
  have p1: "E + of_nat n * c \<le> 4" using Suc.prems(3) assms(1) by (simp add: algebra_simps)
  have p2: "a + of_nat n / 2 ^ 50 \<le> 1" using Suc.prems(4) by (simp add: field_simps)
  have ih: "\<bar>t - (E + of_nat n * c)\<bar> \<le> a + of_nat n / 2 ^ 50"
    unfolding t_def using Suc.prems(1,2) p1 p2 by (rule Suc.IH)
  have "\<bar>js_add t (binary64 c) - (E + of_nat n * c + c)\<bar> \<le> a + of_nat n / 2 ^ 50 + 1 / 2 ^ 50"
    using ih _ p1 p2 assms
  proof (rule js_add_step_error)
    show "0 \<le> E + of_nat n * c" using Suc.prems(2) nc by simp
  qed
  then show ?case by (simp add: t_def algebra_simps add_divide_distrib)
qed

lemma min_one_close: "\<bar>min 1 a - min 1 b\<bar> \<le> \<bar>a - b\<bar>" for a b :: real
  by (simp add: min_def abs_le_iff; linarith?)

lemma js_add_clamped_error:
  assumes "0 \<le> s" and "s \<le> 1" and "0 \<le> c" and "c \<le> 1 / 5"
  shows "\<bar>min 1 (js_add s (binary64 c)) - min 1 (s + c)\<bar> \<le> 1 / 2 ^ 50"
proof -
  have "\<bar>min 1 (js_add s (binary64 c)) - min 1 (s + c)\<bar>
      \<le> \<bar>js_add s (binary64 c) - (s + c)\<bar>"
    by (rule min_one_close)
  also have "\<dots> \<le> 0 + 1 / 2 ^ 50"
    using assms by (intro js_add_step_error) simp_all
  finally show ?thesis by simp
qed

text \<open>
  The natural numbers up to \<open>2 ^ 53\<close> are numbers of the language, so that adding 1 to a
  count below \<open>2 ^ 53\<close> is exact; at \<open>2 ^ 53\<close> the sum rounds back and the count stays.
\<close>

lemma binary64_of_nat_less:
  assumes "k < 2 ^ 53"
  shows "binary64 (of_nat k) = of_nat k"
proof (cases "k = 0")
  case True
  then show ?thesis by (simp add: binary64_zero)
next
  case False
  define x :: real where "x = of_nat k"
  define e where "e = exponent x"
  have x1: "1 \<le> x" using False by (simp add: x_def)
  then have x0: "x \<noteq> 0" by simp
  have b: "2 powi e \<le> x" "x < 2 powi (e + 1)"
    using exponent_bounds [OF x0] x1 by (simp_all add: e_def)
  have "x < 2 ^ 53" using assms unfolding x_def
    by (metis of_nat_less_iff of_nat_numeral of_nat_power)
  then have "(2::real) powi e < 2 powi 53" using b(1) by simp
  then have e53: "e < 53" by (simp only: pow2_less_iff)
  have "(2::real) powi 0 < 2 powi (e + 1)" using b(2) x1 by simp
  then have e0: "0 \<le> e" by (simp only: pow2_less_iff)
  define m where "m = nat (52 - e)"
  have em: "e - 52 = - int m" using e53 by (simp add: m_def)
  have u: "(2::real) powi (e - 52) = 1 / 2 ^ m"
    unfolding em by (simp add: power_int_minus field_simps)
  have "x / 2 powi (e - 52) = of_int (int k * 2 ^ m)"
    by (simp add: u x_def)
  then have "round_half_even (x / 2 powi (e - 52)) = int k * 2 ^ m"
    by (simp only: rhe_of_int)
  then have "binary64 x = 2 powi (e - 52) * of_int (int k * 2 ^ m)"
    using x0 by (simp add: binary64_def Let_def e_def)
  then show ?thesis by (simp add: u x_def)
qed

lemma binary64_of_nat:
  assumes "k \<le> 2 ^ 53"
  shows "binary64 (of_nat k) = of_nat k"
proof (cases "k = 2 ^ 53")
  case True
  then show ?thesis by (simp add: binary64_eval [of 53] round_half_even_def)
next
  case False
  with assms have "k < 2 ^ 53" by simp
  then show ?thesis by (rule binary64_of_nat_less)
qed

lemma js_add_one_of_nat:
  assumes "n < 2 ^ 53"
  shows "js_add (of_nat n) 1 = of_nat n + 1"
proof -
  have "Suc n \<le> 2 ^ 53" using assms by simp
  then have "binary64 (of_nat (Suc n)) = of_nat (Suc n)" by (rule binary64_of_nat)
  then show ?thesis by (simp add: js_add_def add.commute)
qed

lemma js_add_one_stuck: "js_add 9007199254740992 1 = 9007199254740992"
  by (simp add: js_add_def binary64_eval [of 53] round_half_even_def Let_def)

text \<open>The literals and sums of the scenarios, evaluated.\<close>

lemma lit_03: "binary64 0.3 = 5404319552844595 / 18014398509481984"
  by (simp add: binary64_eval [of "-2"] round_half_even_def Let_def)

lemma lit_02: "binary64 0.2 = 3602879701896397 / 18014398509481984"
  by (simp add: binary64_eval [of "-3"] round_half_even_def Let_def)

lemma lit_09: "binary64 0.9 = 8106479329266893 / 9007199254740992"
  by (simp add: binary64_eval [of "-1"] round_half_even_def Let_def)

lemma sum_05: "js_add (binary64 0.3) (binary64 0.2) = 1 / 2"
  unfolding lit_03 lit_02 js_add_def
  by (simp add: binary64_eval [of "-1"] round_half_even_def Let_def)

lemma sum_07: "js_add (1 / 2) (binary64 0.2) = 3152519739159347 / 4503599627370496"
  unfolding lit_02 js_add_def
  by (simp add: binary64_eval [of "-1"] round_half_even_def Let_def)

lemma sum_09:
  "js_add (3152519739159347 / 4503599627370496) (binary64 0.2) =
     2026619832316723 / 2251799813685248"
  unfolding lit_02 js_add_def
  by (simp add: binary64_eval [of "-1"] round_half_even_def Let_def)

section \<open>The scoring engine\<close>

subsection \<open>Importance of a content\<close>

text \<open>
  The two loops over the keywords add their step once for each keyword that occurs, so
  the result depends on the content through the two counts and the two length tests
  alone. Each of the at most twenty additions rounds, which moves the result away from
  the exact value of the formula by less than \<open>2 ^ - 45\<close> in all.
\<close>

lemma fold_cond_funpow:
  "fold (\<lambda>x s. if P x then f s else s) xs s = (f ^^ length (filter P xs)) s"
  by (induction xs arbitrary: s) (simp_all add: funpow_swap1)

lemma detectImportance_counts:
  "detectImportance content' =
     min 1
       ((if length content' > 500 then (\<lambda>s. js_add s (binary64 0.1)) else (\<lambda>s. s))
         ((if length content' > 200 then (\<lambda>s. js_add s (binary64 0.1)) else (\<lambda>s. s))
           (((\<lambda>s. js_add s (binary64 0.15)) ^^ keyword_hits emotionalKeywords content')
             (((\<lambda>s. js_add s (binary64 0.2)) ^^ keyword_hits importanceKeywords content')
               (binary64 0.3)))))"
  by (simp add: detectImportance_def Let_def fold_cond_funpow keyword_hits_def)

lemma keyword_hits_le: "keyword_hits keywords content' \<le> length keywords"
  by (simp add: keyword_hits_def)

lemma detectImportance_error:
  "\<bar>detectImportance content' - importance_formula content'\<bar> \<le> 1 / 2 ^ 45"
proof -
  define k where "k = keyword_hits importanceKeywords content'"
  define j where "j = keyword_hits emotionalKeywords content'"
  define b1 :: real where "b1 = (if length content' > 200 then 0.1 else 0)"
  define b2 :: real where "b2 = (if length content' > 500 then 0.1 else 0)"
  define s1 where "s1 = ((\<lambda>s. js_add s (binary64 0.2)) ^^ k) (binary64 0.3)"
  define s2 where "s2 = ((\<lambda>s. js_add s (binary64 0.15)) ^^ j) s1"
  define s3 where "s3 = (if length content' > 200 then js_add s2 (binary64 0.1) else s2)"
  define s4 where "s4 = (if length content' > 500 then js_add s3 (binary64 0.1) else s3)"
  have k: "real k \<le> 11"
    using keyword_hits_le [of importanceKeywords content'] by (simp add: k_def importanceKeywords_def)
  have j: "real j \<le> 7"
    using keyword_hits_le [of emotionalKeywords content'] by (simp add: j_def emotionalKeywords_def)
  have b: "0 \<le> b1" "b1 \<le> 1 / 10" "0 \<le> b2" "b2 \<le> 1 / 10" by (simp_all add: b1_def b2_def)
  have e0: "\<bar>binary64 0.3 - 0.3\<bar> \<le> 1 / 2 ^ 50"
    using binary64_error [of "0.3"] by simp
  have e1: "\<bar>s1 - (0.3 + real k * 0.2)\<bar> \<le> 1 / 2 ^ 50 + real k / 2 ^ 50"
    unfolding s1_def using k by (intro funpow_add_error e0) simp_all
  have e2: "\<bar>s2 - (0.3 + real k * 0.2 + real j * 0.15)\<bar> \<le> 1 / 2 ^ 50 + real k / 2 ^ 50 + real j / 2 ^ 50"
    unfolding s2_def using k j by (intro funpow_add_error e1) simp_all
  have e3: "\<bar>s3 - (0.3 + real k * 0.2 + real j * 0.15 + b1)\<bar>
      \<le> 1 / 2 ^ 50 + real k / 2 ^ 50 + real j / 2 ^ 50 + 1 / 2 ^ 50"
  proof (cases "length content' > 200")
    case True
    have "\<bar>js_add s2 (binary64 0.1) - (0.3 + real k * 0.2 + real j * 0.15 + 0.1)\<bar>
      \<le> 1 / 2 ^ 50 + real k / 2 ^ 50 + real j / 2 ^ 50 + 1 / 2 ^ 50"
      using k j by (intro js_add_step_error e2) simp_all
    then show ?thesis using True by (simp add: s3_def b1_def)
  next
    case False
    then show ?thesis using e2 by (simp add: s3_def b1_def)
  qed
  have e4: "\<bar>s4 - (0.3 + real k * 0.2 + real j * 0.15 + b1 + b2)\<bar>
      \<le> 1 / 2 ^ 50 + real k / 2 ^ 50 + real j / 2 ^ 50 + 1 / 2 ^ 50 + 1 / 2 ^ 50"
  proof (cases "length content' > 500")
    case True
    have "\<bar>js_add s3 (binary64 0.1) - (0.3 + real k * 0.2 + real j * 0.15 + b1 + 0.1)\<bar>
      \<le> 1 / 2 ^ 50 + real k / 2 ^ 50 + real j / 2 ^ 50 + 1 / 2 ^ 50 + 1 / 2 ^ 50"
      using k j b by (intro js_add_step_error e3) simp_all
    then show ?thesis using True by (simp add: s4_def b2_def)
  next
    case False
    then show ?thesis using e3 by (simp add: s4_def b2_def)
  qed
  have d: "detectImportance content' = min 1 s4"
    by (simp add: detectImportance_counts s4_def s3_def s2_def s1_def k_def j_def)
  have f: "importance_formula content' = min 1 (0.3 + real k * 0.2 + real j * 0.15 + b1 + b2)"
    by (simp add: importance_formula_def k_def j_def b1_def b2_def algebra_simps)
  have "\<bar>min 1 s4 - min 1 (0.3 + real k * 0.2 + real j * 0.15 + b1 + b2)\<bar>
      \<le> \<bar>s4 - (0.3 + real k * 0.2 + real j * 0.15 + b1 + b2)\<bar>"
    by (simp add: min_def abs_le_iff; linarith?)
  also have "\<dots> \<le> 1 / 2 ^ 50 + real k / 2 ^ 50 + real j / 2 ^ 50 + 1 / 2 ^ 50 + 1 / 2 ^ 50" by (rule e4)
  also have "\<dots> \<le> 1 / 2 ^ 45" using k j by simp
  finally show ?thesis unfolding d f .
qed

lemma importance_formula_lower: "3 / 10 \<le> importance_formula content'"
  by (simp add: importance_formula_def)

lemma detectImportance_range:
  shows "0 \<le> detectImportance content'" and "detectImportance content' \<le> 1"
proof -
  show "0 \<le> detectImportance content'"
    using detectImportance_error [of content'] importance_formula_lower [of content']
    unfolding abs_le_iff by (simp; linarith?)
  show "detectImportance content' \<le> 1"
    by (simp add: detectImportance_def Let_def)
qed

lemma scenario_importance_hits:
  "filter (\<lambda>keyword. includes_str (toLowerCase ''This is urgent, remember the password!'') keyword)
     importanceKeywords = [''urgent'', ''remember'', ''password'']"
  by (simp add: importanceKeywords_def toLowerCase_def)

lemma scenario_emotional_hits:
  "filter (\<lambda>keyword. includes_str (toLowerCase ''This is urgent, remember the password!'') keyword)
     emotionalKeywords = []"
  by (simp add: emotionalKeywords_def toLowerCase_def)

lemma scenario_importance:
  "detectImportance ''This is urgent, remember the password!'' =
     2026619832316723 / 2251799813685248"
proof -
  have "detectImportance ''This is urgent, remember the password!'' =
    min 1 (js_add (js_add (js_add (binary64 0.3) (binary64 0.2)) (binary64 0.2)) (binary64 0.2))"
    by (simp add: detectImportance_counts keyword_hits_def scenario_importance_hits
          scenario_emotional_hits)
  also have "\<dots> = min 1 (2026619832316723 / 2251799813685248)"
    by (simp only: sum_05 sum_07 sum_09)
  also have "\<dots> = 2026619832316723 / 2251799813685248" by simp
  finally show ?thesis .
qed

lemma scenario_formula:
  "importance_formula ''This is urgent, remember the password!'' = 0.9"
  by (simp add: importance_formula_def keyword_hits_def scenario_importance_hits
        scenario_emotional_hits)

text \<open>
  Claim C3, as stated, fails on the scenario of the specification. The content
  \<^verbatim>\<open>This is urgent, remember the password!\<close> holds the keywords \<^verbatim>\<open>urgent\<close>,
  \<^verbatim>\<open>remember\<close> and \<^verbatim>\<open>password\<close>, and the method adds \<^verbatim>\<open>0.2\<close> three times to
  \<^verbatim>\<open>0.3\<close>: the sums are \<^verbatim>\<open>0.5\<close>, \<^verbatim>\<open>0.7\<close> and \<^verbatim>\<open>0.8999999999999999\<close>, since the
  last addition rounds down. The result is neither the number \<^verbatim>\<open>0.9\<close> of the language nor
  the real number nine tenths.
\<close>

theorem detectImportance_scenario_counterexample:
  "detectImportance ''This is urgent, remember the password!'' \<noteq> binary64 0.9 \<and>
   detectImportance ''This is urgent, remember the password!'' \<noteq> 0.9"
  by (simp add: scenario_importance lit_09)

text \<open>
  Claim C3, amended. For every content, \<open>detectImportance\<close> returns the minimum of 1 and
  the score that starts at \<^verbatim>\<open>0.3\<close> and receives \<^verbatim>\<open>0.2\<close> once for each importance keyword
  and then \<^verbatim>\<open>0.15\<close> once for each emotional keyword that occurs in the content without
  regard to case, then \<^verbatim>\<open>0.1\<close> if the length exceeds 200 and \<^verbatim>\<open>0.1\<close> if it exceeds 500,
  each addition being an addition of the language, which rounds. It depends on the content
  alone, and it differs from the exact value of the formula by at most \<open>2 ^ - 45\<close>. For the
  content \<^verbatim>\<open>This is urgent, remember the password!\<close> the formula gives nine tenths and
  the method returns \<^verbatim>\<open>0.8999999999999999\<close>, the number just below \<^verbatim>\<open>0.9\<close>.
\<close>

theorem detectImportance_rounded:
  "detectImportance content' =
     min 1
       ((if length content' > 500 then (\<lambda>s. js_add s (binary64 0.1)) else (\<lambda>s. s))
         ((if length content' > 200 then (\<lambda>s. js_add s (binary64 0.1)) else (\<lambda>s. s))
           (((\<lambda>s. js_add s (binary64 0.15)) ^^ keyword_hits emotionalKeywords content')
             (((\<lambda>s. js_add s (binary64 0.2)) ^^ keyword_hits importanceKeywords content')
               (binary64 0.3))))) \<and>
   \<bar>detectImportance content' - importance_formula content'\<bar> \<le> 1 / 2 ^ 45 \<and>
   importance_formula ''This is urgent, remember the password!'' = 0.9 \<and>
   detectImportance ''This is urgent, remember the password!'' = binary64 0.9 - 1 / 2 ^ 53"
proof -
  have "detectImportance ''This is urgent, remember the password!'' = binary64 0.9 - 1 / 2 ^ 53"
    unfolding scenario_importance lit_09 by simp
  then show ?thesis
    using detectImportance_counts [of content'] detectImportance_error [of content']
      scenario_formula
    by blast
qed

subsection \<open>The records of the scenarios\<close>

lemma scenario_id: "memory_id scenario_memory = ''mem_1700000000001_k3j9x0q2z''"
  by (simp add: scenario_memory_def createMemory_def show_int_def Let_def)

lemma scenario_score:
  "importance_score scenario_memory = 2026619832316723 / 2251799813685248"
  by (simp add: scenario_memory_def createMemory_def Let_def scenario_importance)

lemma scenario_usage: "usage_count scenario_memory = 1"
  by (simp add: scenario_memory_def createMemory_def Let_def)

lemma scenario_accessed: "last_accessed scenario_memory = 1700000000000"
  by (simp add: scenario_memory_def createMemory_def Let_def)

lemma scenario_emotion: "emotion_flag scenario_memory = Anxious"
  by (simp add: scenario_memory_def createMemory_def Let_def)

lemma plain_score: "importance_score plain_memory = 5404319552844595 / 18014398509481984"
  by (simp add: plain_memory_def createMemory_def Let_def detectImportance_counts keyword_hits_def
        importanceKeywords_def emotionalKeywords_def toLowerCase_def
        binary64_eval [of "-2"] round_half_even_def)

lemma plain_accessed: "last_accessed plain_memory = 1700000000000"
  by (simp add: plain_memory_def createMemory_def Let_def)

subsection \<open>Decay\<close>

lemma getEmotionalWeight_eq: "getEmotionalWeight e = emotionalWeights e"
proof -
  have "0 < emotionalWeights e" by (cases e) (simp_all add: binary64_pos)
  then show ?thesis by (simp add: getEmotionalWeight_def or_default_def)
qed

lemma getEmotionalWeight_bounds:
  shows "0 < getEmotionalWeight e" and "getEmotionalWeight e \<le> 9001 / 10000"
proof -
  show "0 < getEmotionalWeight e"
    unfolding getEmotionalWeight_eq by (cases e) (simp_all add: binary64_pos)
  have "emotionalWeights e \<le> binary64 0.9"
    by (cases e) (simp_all add: binary64_mono)
  moreover have "binary64 0.9 \<le> 9001 / 10000"
    using binary64_upper [of "0.9"] by simp
  ultimately show "getEmotionalWeight e \<le> 9001 / 10000"
    unfolding getEmotionalWeight_eq by linarith
qed

text \<open>
  The usage protection is at most 0.8 and the emotional protection at most 0.9 times 0.2,
  so the effective decay rate is positive for every record.
\<close>

lemma effectiveDecay_pos: "0 < effectiveDecay memory"
proof -
  define up where "up = min (binary64 0.8) (js_mul (usage_count memory) (binary64 0.1))"
  define w where "w = getEmotionalWeight (emotion_flag memory)"
  define ep where "ep = js_mul w (binary64 0.2)"
  have "binary64 0.8 \<le> 8001 / 10000" using binary64_upper [of "0.8"] by simp
  then have up: "up \<le> 8001 / 10000" by (simp add: up_def min_le_iff_disj)
  then have "1999 / 10000 \<le> 1 - up" by simp
  then have "binary64 (1999 / 10000) \<le> js_sub 1 up"
    unfolding js_sub_def by (rule binary64_mono)
  moreover have "1998 / 10000 \<le> binary64 (1999 / 10000)"
    using binary64_lower [of "1999 / 10000"] by simp
  ultimately have a: "1998 / 10000 \<le> js_sub 1 up" by linarith
  have w: "0 < w" "w \<le> 9001 / 10000"
    unfolding w_def by (rule getEmotionalWeight_bounds(1), rule getEmotionalWeight_bounds(2))
  have l2: "0 < binary64 0.2" "binary64 0.2 \<le> 2001 / 10000"
    using binary64_upper [of "0.2"] by (simp_all add: binary64_pos)
  have "w * binary64 0.2 \<le> (9001 / 10000) * (2001 / 10000)"
    using w l2 by (intro mult_mono) auto
  then have p: "w * binary64 0.2 \<le> 1802 / 10000" by simp
  have "ep \<le> binary64 (1802 / 10000)"
    unfolding ep_def js_mul_def using p by (rule binary64_mono)
  moreover have "binary64 (1802 / 10000) \<le> 1803 / 10000"
    using binary64_upper [of "1802 / 10000"] by simp
  ultimately have ep: "ep \<le> 1803 / 10000" by linarith
  have "0 < js_sub 1 up - ep" using a ep by linarith
  then have "0 < js_sub (js_sub 1 up) ep" unfolding js_sub_def [of "js_sub 1 up"] by (rule binary64_pos)
  moreover have "0 < binary64 0.05" by (simp add: binary64_pos)
  ultimately have "0 < binary64 0.05 * js_sub (js_sub 1 up) ep" by simp
  then have "0 < js_mul (binary64 0.05) (js_sub (js_sub 1 up) ep)"
    unfolding js_mul_def by (rule binary64_pos)
  then show ?thesis by (simp add: effectiveDecay_def up_def ep_def w_def)
qed

lemma calculateDecay_eq:
  "calculateDecay now memory =
     max 0 (js_sub (importance_score memory)
       (js_mul (effectiveDecay memory) (daysSinceAccess now memory)))"
  by (simp add: calculateDecay_def effectiveDecay_def daysSinceAccess_def Let_def)

lemma daysSinceAccess_mono:
  assumes "now1 \<le> now2"
  shows "daysSinceAccess now1 memory \<le> daysSinceAccess now2 memory"
proof -
  have "(of_int now1 :: real) - of_int (last_accessed memory)
      \<le> of_int now2 - of_int (last_accessed memory)"
    using assms by simp
  then have "js_sub (of_int now1) (of_int (last_accessed memory))
      \<le> js_sub (of_int now2) (of_int (last_accessed memory))"
    unfolding js_sub_def by (rule binary64_mono)
  then have "js_sub (of_int now1) (of_int (last_accessed memory)) / (1000 * 60 * 60 * 24)
      \<le> js_sub (of_int now2) (of_int (last_accessed memory)) / (1000 * 60 * 60 * 24)"
    by (simp add: divide_right_mono)
  then show ?thesis unfolding daysSinceAccess_def by (rule binary64_mono)
qed

text \<open>
  At the time of the last access nothing has decayed. Ten days later the record of the
  scenario, with the rate \<^verbatim>\<open>0.036\<close>, has gone from \<^verbatim>\<open>0.8999999999999999\<close> to
  \<^verbatim>\<open>0.5399999999999999\<close>.
\<close>

lemma calculateDecay_at_access:
  "last_accessed memory = now \<Longrightarrow>
   calculateDecay now memory = max 0 (binary64 (importance_score memory))"
  by (simp add: calculateDecay_eq daysSinceAccess_def js_sub_def js_mul_def binary64_zero)

lemma scenario_decay:
  "calculateDecay 1700000000000 scenario_memory = 2026619832316723 / 2251799813685248"
  by (simp add: calculateDecay_at_access scenario_accessed scenario_score
        binary64_eval [of "-1"] round_half_even_def Let_def)

lemma plain_decay:
  "calculateDecay 1700000000000 plain_memory = 5404319552844595 / 18014398509481984"
  by (simp add: calculateDecay_at_access plain_accessed plain_score
        binary64_eval [of "-2"] round_half_even_def Let_def)

lemma scenario_days: "daysSinceAccess 1700864000000 scenario_memory = 10"
  by (simp add: daysSinceAccess_def scenario_accessed js_sub_def
        binary64_eval [of 29] binary64_eval [of 3] round_half_even_def Let_def)

lemma scenario_rate: "effectiveDecay scenario_memory = 5188146770730811 / 144115188075855872"
  by (simp add: effectiveDecay_def scenario_usage scenario_emotion getEmotionalWeight_eq
        js_sub_def js_mul_def
        binary64_eval [of "-1"] binary64_eval [of "-3"] binary64_eval [of "-4"]
        binary64_eval [of "-5"] round_half_even_def Let_def)

lemma scenario_decay_10:
  "calculateDecay 1700864000000 scenario_memory = 4863887597560135 / 9007199254740992"
  by (simp add: calculateDecay_eq scenario_days scenario_rate scenario_score js_sub_def js_mul_def
        binary64_eval [of "-1"] binary64_eval [of "-2"] round_half_even_def Let_def)

text \<open>
  Claim C2. For a fixed record (its score, usage count and emotion fixed), the result of
  \<open>calculateDecay\<close> does not increase when the days since the last access grow: a later
  reading of the clock never gives a higher effective score. The days since the last
  access are themselves a non-decreasing function of the clock (\<open>daysSinceAccess_mono\<close>).
\<close>

theorem calculateDecay_mono:
  "daysSinceAccess now1 memory \<le> daysSinceAccess now2 memory \<Longrightarrow>
   calculateDecay now2 memory \<le> calculateDecay now1 memory"
proof -
  assume d: "daysSinceAccess now1 memory \<le> daysSinceAccess now2 memory"
  have "effectiveDecay memory * daysSinceAccess now1 memory
      \<le> effectiveDecay memory * daysSinceAccess now2 memory"
    using d effectiveDecay_pos [of memory] by simp
  then have "js_mul (effectiveDecay memory) (daysSinceAccess now1 memory)
      \<le> js_mul (effectiveDecay memory) (daysSinceAccess now2 memory)"
    unfolding js_mul_def by (rule binary64_mono)
  then have "importance_score memory - js_mul (effectiveDecay memory) (daysSinceAccess now2 memory)
      \<le> importance_score memory - js_mul (effectiveDecay memory) (daysSinceAccess now1 memory)"
    by simp
  then have "js_sub (importance_score memory)
        (js_mul (effectiveDecay memory) (daysSinceAccess now2 memory))
      \<le> js_sub (importance_score memory)
        (js_mul (effectiveDecay memory) (daysSinceAccess now1 memory))"
    unfolding js_sub_def by (rule binary64_mono)
  then show ?thesis
    unfolding calculateDecay_eq by (simp add: max.coboundedI2)
qed

theorem calculateDecay_mono_witness:
  "daysSinceAccess 1700000000000 scenario_memory \<le> daysSinceAccess 1700864000000 scenario_memory \<and>
   daysSinceAccess 1700864000000 scenario_memory = 10 \<and>
   calculateDecay 1700000000000 scenario_memory = 2026619832316723 / 2251799813685248 \<and>
   calculateDecay 1700864000000 scenario_memory = 4863887597560135 / 9007199254740992 \<and>
   calculateDecay 1700864000000 scenario_memory \<le> calculateDecay 1700000000000 scenario_memory"
  using calculateDecay_mono [of 1700000000000 scenario_memory 1700864000000]
    daysSinceAccess_mono [of 1700000000000 1700864000000 scenario_memory]
  by (simp add: scenario_days scenario_decay scenario_decay_10)

section \<open>The store\<close>

text \<open>
  Claim C6. For every store and every identifier that no record of the store carries,
  \<open>accessMemory\<close> reports the absence by its result \<^verbatim>\<open>null\<close> (\<open>None\<close>), the one value
  of its result type that is not a record, and leaves the store as it was: the same
  records in the same order.
\<close>

theorem accessMemory_not_found:
  "memoryId \<notin> memory_id ` set memories \<Longrightarrow>
   accessMemory now memoryId memories = (None, memories)"
proof -
  assume "memoryId \<notin> memory_id ` set memories"
  then have "List.extract (\<lambda>m. memory_id m = memoryId) memories = None"
    by (auto simp add: extract_None_iff)
  then show ?thesis by (simp add: accessMemory_def)
qed

theorem accessMemory_not_found_witness:
  "''mem_0_missing'' \<notin> memory_id ` set [scenario_memory] \<and>
   accessMemory 1700000000500 ''mem_0_missing'' [scenario_memory] = (None, [scenario_memory])"
  using accessMemory_not_found [of "''mem_0_missing''" "[scenario_memory]" 1700000000500]
  by (simp add: scenario_id)

lemma accessMemory_first:
  assumes "memory_id memory = memoryId" and "memoryId \<notin> memory_id ` set before"
  shows "accessMemory now memoryId (before @ memory # after) =
           (Some (accessed now memory), before @ accessed now memory # after)"
proof -
  have "List.extract (\<lambda>m. memory_id m = memoryId) (before @ memory # after) =
          Some (before, memory, after)"
    using assms by (auto simp add: extract_Some_iff image_iff)
  then show ?thesis by (simp add: accessMemory_def accessed_def Let_def)
qed

text \<open>
  Claim C4, as stated, fails in its two exact steps. An access of the record of the
  scenario takes its score from \<^verbatim>\<open>0.8999999999999999\<close> to \<^verbatim>\<open>0.95\<close>: the rise is not
  0.05, neither the real number nor the number \<^verbatim>\<open>0.05\<close> of the language, and the new
  score is not the exact sum. And an access of a record whose usage count is \<open>2 ^ 53\<close>
  leaves the count at \<open>2 ^ 53\<close>.
\<close>

theorem accessMemory_exact_step_counterexample:
  "importance_score scenario_memory = 2026619832316723 / 2251799813685248 \<and>
   map_option importance_score
     (fst (accessMemory 1700000000500 ''mem_1700000000001_k3j9x0q2z'' [scenario_memory])) =
     Some (4278419646001971 / 4503599627370496) \<and>
   4278419646001971 / 4503599627370496 - 2026619832316723 / 2251799813685248 \<noteq> (0.05 :: real) \<and>
   4278419646001971 / 4503599627370496 - 2026619832316723 / 2251799813685248 \<noteq> binary64 0.05 \<and>
   4278419646001971 / 4503599627370496 \<noteq>
     min 1 (importance_score scenario_memory + 0.05) \<and>
   usage_count (scenario_memory\<lparr>usage_count := 9007199254740992\<rparr>) = 9007199254740992 \<and>
   map_option usage_count
     (fst (accessMemory 1700000000500 ''mem_1700000000001_k3j9x0q2z''
             [scenario_memory\<lparr>usage_count := 9007199254740992\<rparr>])) =
     Some 9007199254740992"
proof -
  have a: "accessMemory 1700000000500 ''mem_1700000000001_k3j9x0q2z'' ([] @ m # []) =
      (Some (accessed 1700000000500 m), [] @ accessed 1700000000500 m # [])"
    if "memory_id m = ''mem_1700000000001_k3j9x0q2z''" for m
    using that by (intro accessMemory_first) simp_all
  have s: "importance_score (accessed 1700000000500 scenario_memory) =
      4278419646001971 / 4503599627370496"
    by (simp add: accessed_def scenario_score js_add_def binary64_eval [of "-5"]
          binary64_eval [of "-1"] round_half_even_def Let_def)
  have u: "usage_count (accessed 1700000000500
        (scenario_memory\<lparr>usage_count := 9007199254740992\<rparr>)) = 9007199254740992"
    by (simp add: accessed_def js_add_one_stuck)
  show ?thesis
    using a [of scenario_memory] a [of "scenario_memory\<lparr>usage_count := 9007199254740992\<rparr>"]
    by (simp add: scenario_id scenario_score s u binary64_eval [of "-5"] round_half_even_def
          Let_def)
qed

text \<open>
  Claim C4, amended. When the store holds a record with the given identifier,
  \<open>accessMemory\<close> takes the first such record, replaces its usage count by the count plus
  1, sets its last access to the time of the call, replaces its score by the minimum of 1
  and the score plus \<^verbatim>\<open>0.05\<close>, and returns the updated record, which takes the place of
  the old one in the store. Both sums are sums of the language, which round: the count
  grows by exactly 1 as long as it is a natural number below \<open>2 ^ 53\<close>, and the new score
  is within \<open>2 ^ - 50\<close> of the exact one for a score of the unit interval. The operation is
  not idempotent: a second access finds the updated record and updates it again, so that
  such a count has grown by 2, and a score of the unit interval below 1 has become larger.
\<close>

theorem accessMemory_found:
  assumes "memory_id memory = memoryId" and "memoryId \<notin> memory_id ` set before"
  shows "accessMemory now memoryId (before @ memory # after) =
           (Some (accessed now memory), before @ accessed now memory # after) \<and>
         usage_count (accessed now memory) = js_add (usage_count memory) 1 \<and>
         (n < 2 ^ 53 \<and> usage_count memory = of_nat n \<longrightarrow>
            usage_count (accessed now memory) = of_nat n + 1) \<and>
         last_accessed (accessed now memory) = now \<and>
         importance_score (accessed now memory) =
           min 1 (js_add (importance_score memory) (binary64 0.05)) \<and>
         (0 \<le> importance_score memory \<and> importance_score memory \<le> 1 \<longrightarrow>
            \<bar>importance_score (accessed now memory) - min 1 (importance_score memory + 0.05)\<bar>
              \<le> 1 / 2 ^ 50) \<and>
         accessMemory now' memoryId (before @ accessed now memory # after) =
           (Some (accessed now' (accessed now memory)),
            before @ accessed now' (accessed now memory) # after) \<and>
         (Suc n < 2 ^ 53 \<and> usage_count memory = of_nat n \<longrightarrow>
            usage_count (accessed now' (accessed now memory)) = of_nat n + 2) \<and>
         (0 \<le> importance_score memory \<and> importance_score memory < 1 \<longrightarrow>
            importance_score memory < importance_score (accessed now memory))"
proof -
  have id': "memory_id (accessed now memory) = memoryId"
    using assms(1) by (simp add: accessed_def)
  have rise: "0 \<le> importance_score memory \<and> importance_score memory < 1 \<longrightarrow>
            importance_score memory < importance_score (accessed now memory)"
    using js_add_strict [of "importance_score memory" "0.05"] by (simp add: accessed_def)
  have near: "0 \<le> importance_score memory \<and> importance_score memory \<le> 1 \<longrightarrow>
            \<bar>importance_score (accessed now memory) - min 1 (importance_score memory + 0.05)\<bar>
              \<le> 1 / 2 ^ 50"
    using js_add_clamped_error [of "importance_score memory" "0.05"] by (simp add: accessed_def)
  have fields: "usage_count (accessed now memory) = js_add (usage_count memory) 1"
    "last_accessed (accessed now memory) = now"
    "importance_score (accessed now memory) =
       min 1 (js_add (importance_score memory) (binary64 0.05))"
    by (simp_all add: accessed_def)
  have once: "n < 2 ^ 53 \<and> usage_count memory = of_nat n \<longrightarrow>
      usage_count (accessed now memory) = of_nat n + 1"
    by (simp add: accessed_def js_add_one_of_nat)
  have twice: "Suc n < 2 ^ 53 \<and> usage_count memory = of_nat n \<longrightarrow>
      usage_count (accessed now' (accessed now memory)) = of_nat n + 2"
  proof (intro impI, elim conjE)
    assume n: "Suc n < 2 ^ 53" and c: "usage_count memory = of_nat n"
    from n have "n < 2 ^ 53" by simp
    then have "js_add (of_nat n) 1 = of_nat (Suc n)" by (simp add: js_add_one_of_nat)
    moreover have "js_add (of_nat (Suc n)) 1 = of_nat (Suc n) + 1"
      using n by (rule js_add_one_of_nat)
    ultimately show "usage_count (accessed now' (accessed now memory)) = of_nat n + 2"
      by (simp add: accessed_def c)
  qed
  from accessMemory_first [OF assms] accessMemory_first [OF id' assms(2)] fields once near
    twice rise
  show ?thesis by blast
qed

theorem accessMemory_found_witness:
  "memory_id scenario_memory = ''mem_1700000000001_k3j9x0q2z'' \<and>
   ''mem_1700000000001_k3j9x0q2z'' \<notin> memory_id ` set [] \<and>
   accessMemory 1700000000500 ''mem_1700000000001_k3j9x0q2z'' [scenario_memory] =
     (Some (accessed 1700000000500 scenario_memory), [accessed 1700000000500 scenario_memory]) \<and>
   usage_count scenario_memory = 1 \<and>
   usage_count (accessed 1700000000500 scenario_memory) = 2 \<and>
   last_accessed (accessed 1700000000500 scenario_memory) = 1700000000500 \<and>
   importance_score scenario_memory = 2026619832316723 / 2251799813685248 \<and>
   importance_score (accessed 1700000000500 scenario_memory) =
     4278419646001971 / 4503599627370496 \<and>
   usage_count (accessed 1700000000900 (accessed 1700000000500 scenario_memory)) = 3"
proof -
  note h = accessMemory_found [where memory = scenario_memory
      and memoryId = "''mem_1700000000001_k3j9x0q2z''" and before = "[]" and after = "[]"
      and now = 1700000000500 and now' = 1700000000900 and n = 1]
  from h show ?thesis
    by (simp add: scenario_id scenario_score scenario_usage js_add_def
          binary64_eval [of "-5"] binary64_eval [of "-1"] binary64_eval [of 1]
          round_half_even_def Let_def)
qed

lemma dreamStateProcessing_map: "dreamStateProcessing memories = map consolidated memories"
  by (simp add: dreamStateProcessing_def consolidated_def Let_def)

text \<open>
  Claim C7. One call of \<open>dreamStateProcessing\<close> replaces the score of every record whose
  usage count exceeds 3 by the minimum of 1 and the score plus \<^verbatim>\<open>0.02\<close> (the rounded sum
  of the language, within \<open>2 ^ - 50\<close> of the exact one for a score of the unit interval),
  leaves the other scores, and sets the flag \<open>dream_state\<close> of every record. Two calls in a row do this
  twice: for a record used more than 3 times (5 times, say) each call adds \<^verbatim>\<open>0.02\<close>, so
  that a score of the unit interval grows at each call that finds it below 1, while the
  flag is set after the first call and stays set after the second.
\<close>

theorem dreamStateProcessing_boost:
  "dreamStateProcessing memories = map consolidated memories \<and>
   dreamStateProcessing (dreamStateProcessing memories) =
     map (\<lambda>memory. consolidated (consolidated memory)) memories \<and>
   (3 < usage_count memory \<longrightarrow>
      importance_score (consolidated memory) =
        min 1 (js_add (importance_score memory) (binary64 0.02)) \<and>
      importance_score (consolidated (consolidated memory)) =
        min 1 (js_add (importance_score (consolidated memory)) (binary64 0.02)) \<and>
      dream_state (consolidated memory) \<and> dream_state (consolidated (consolidated memory)) \<and>
      (0 \<le> importance_score memory \<and> importance_score memory \<le> 1 \<longrightarrow>
         \<bar>importance_score (consolidated memory) - min 1 (importance_score memory + 0.02)\<bar>
           \<le> 1 / 2 ^ 50) \<and>
      (0 \<le> importance_score memory \<and> importance_score (consolidated memory) < 1 \<longrightarrow>
         importance_score memory < importance_score (consolidated memory) \<and>
         importance_score (consolidated memory) <
           importance_score (consolidated (consolidated memory))))"
proof -
  have strict: "importance_score m < importance_score (consolidated m)"
    if "3 < usage_count m" "0 \<le> importance_score m" "importance_score m < 1" for m
    using that js_add_strict [of "importance_score m" "0.02"] by (simp add: consolidated_def)
  have nonneg: "0 \<le> importance_score (consolidated m)" if "0 \<le> importance_score m" for m
    using that by (simp add: consolidated_def js_add_def binary64_nonneg)
  have below: "importance_score m < 1"
    if "3 < usage_count m" "0 \<le> importance_score m" "importance_score (consolidated m) < 1" for m
  proof (rule ccontr)
    assume "\<not> importance_score m < 1"
    then have "1 \<le> importance_score m + binary64 0.02"
      using binary64_nonneg [of "0.02"] by simp
    then have "binary64 1 \<le> js_add (importance_score m) (binary64 0.02)"
      unfolding js_add_def by (rule binary64_mono)
    then show False using that by (simp add: consolidated_def binary64_one)
  qed
  have near: "\<bar>importance_score (consolidated m) - min 1 (importance_score m + 0.02)\<bar> \<le> 1 / 2 ^ 50"
    if "3 < usage_count m" "0 \<le> importance_score m" "importance_score m \<le> 1" for m
    using that js_add_clamped_error [of "importance_score m" "0.02"] by (simp add: consolidated_def)
  have uc: "usage_count (consolidated m) = usage_count m" for m
    by (simp add: consolidated_def)
  have twice: "dreamStateProcessing (dreamStateProcessing memories) =
      map (\<lambda>memory. consolidated (consolidated memory)) memories"
    by (simp add: dreamStateProcessing_map)
  have boost: "importance_score (consolidated m) =
      min 1 (js_add (importance_score m) (binary64 0.02))" if "3 < usage_count m" for m
    using that by (simp add: consolidated_def)
  have flag: "dream_state (consolidated m)" for m
    by (simp add: consolidated_def)
  have body:
    "importance_score (consolidated memory) =
        min 1 (js_add (importance_score memory) (binary64 0.02)) \<and>
      importance_score (consolidated (consolidated memory)) =
        min 1 (js_add (importance_score (consolidated memory)) (binary64 0.02)) \<and>
      dream_state (consolidated memory) \<and> dream_state (consolidated (consolidated memory)) \<and>
      (0 \<le> importance_score memory \<and> importance_score memory \<le> 1 \<longrightarrow>
         \<bar>importance_score (consolidated memory) - min 1 (importance_score memory + 0.02)\<bar>
           \<le> 1 / 2 ^ 50) \<and>
      (0 \<le> importance_score memory \<and> importance_score (consolidated memory) < 1 \<longrightarrow>
         importance_score memory < importance_score (consolidated memory) \<and>
         importance_score (consolidated memory) <
           importance_score (consolidated (consolidated memory)))"
    if u: "3 < usage_count memory"
  proof -
    have u': "3 < usage_count (consolidated memory)" using u by (simp add: uc)
    have A: "importance_score (consolidated memory) =
        min 1 (js_add (importance_score memory) (binary64 0.02))"
      using u by (rule boost)
    have B: "importance_score (consolidated (consolidated memory)) =
        min 1 (js_add (importance_score (consolidated memory)) (binary64 0.02))"
      using u' by (rule boost)
    have E: "0 \<le> importance_score memory \<and> importance_score memory \<le> 1 \<longrightarrow>
         \<bar>importance_score (consolidated memory) - min 1 (importance_score memory + 0.02)\<bar>
           \<le> 1 / 2 ^ 50"
      using near [OF u] by blast
    have F: "0 \<le> importance_score memory \<and> importance_score (consolidated memory) < 1 \<longrightarrow>
         importance_score memory < importance_score (consolidated memory) \<and>
         importance_score (consolidated memory) <
           importance_score (consolidated (consolidated memory))"
    proof (intro impI, elim conjE)
      assume p: "0 \<le> importance_score memory" "importance_score (consolidated memory) < 1"
      have "importance_score memory < 1" using u p by (rule below)
      with u p(1) have 1: "importance_score memory < importance_score (consolidated memory)"
        by (intro strict)
      have 2: "importance_score (consolidated memory) <
          importance_score (consolidated (consolidated memory))"
        using u' nonneg [OF p(1)] p(2) by (rule strict)
      from 1 2 show "importance_score memory < importance_score (consolidated memory) \<and>
         importance_score (consolidated memory) <
           importance_score (consolidated (consolidated memory))" by simp
    qed
    from A B flag [of memory] flag [of "consolidated memory"] E F show ?thesis by blast
  qed
  from dreamStateProcessing_map [of memories] twice body show ?thesis by blast
qed

theorem dreamStateProcessing_boost_witness:
  "usage_count (scenario_memory\<lparr>usage_count := 5\<rparr>) = 5 \<and>
   dreamStateProcessing [scenario_memory\<lparr>usage_count := 5\<rparr>] =
     [consolidated (scenario_memory\<lparr>usage_count := 5\<rparr>)] \<and>
   dreamStateProcessing (dreamStateProcessing [scenario_memory\<lparr>usage_count := 5\<rparr>]) =
     [consolidated (consolidated (scenario_memory\<lparr>usage_count := 5\<rparr>))] \<and>
   importance_score (scenario_memory\<lparr>usage_count := 5\<rparr>) =
     2026619832316723 / 2251799813685248 \<and>
   importance_score (consolidated (scenario_memory\<lparr>usage_count := 5\<rparr>)) =
     517913957147607 / 562949953421312 \<and>
   importance_score (consolidated (consolidated (scenario_memory\<lparr>usage_count := 5\<rparr>))) =
     2116691824864133 / 2251799813685248 \<and>
   dream_state (consolidated (scenario_memory\<lparr>usage_count := 5\<rparr>)) \<and>
   dream_state (consolidated (consolidated (scenario_memory\<lparr>usage_count := 5\<rparr>)))"
proof -
  define m where "m = scenario_memory\<lparr>usage_count := 5\<rparr>"
  note h = dreamStateProcessing_boost [where memory = m and memories = "[m]"]
  have u: "usage_count m = 5" by (simp add: m_def)
  have s0: "importance_score m = 2026619832316723 / 2251799813685248"
    by (simp add: m_def scenario_score)
  have once: "dreamStateProcessing [m] = [consolidated m]"
    using conjunct1 [OF h] by simp
  have twice: "dreamStateProcessing (dreamStateProcessing [m]) = [consolidated (consolidated m)]"
    using conjunct1 [OF conjunct2 [OF h]] by simp
  have rest: "importance_score (consolidated m) =
        min 1 (js_add (importance_score m) (binary64 0.02)) \<and>
      importance_score (consolidated (consolidated m)) =
        min 1 (js_add (importance_score (consolidated m)) (binary64 0.02)) \<and>
      dream_state (consolidated m) \<and> dream_state (consolidated (consolidated m))"
    using conjunct2 [OF conjunct2 [OF h]] u by simp
  have s1: "importance_score (consolidated m) = 517913957147607 / 562949953421312"
    using rest
    by (simp add: s0 js_add_def binary64_eval [of "-6"] binary64_eval [of "-1"]
          round_half_even_def Let_def)
  have s2: "importance_score (consolidated (consolidated m)) =
      2116691824864133 / 2251799813685248"
    using rest
    by (simp add: s1 js_add_def binary64_eval [of "-6"] binary64_eval [of "-1"]
          round_half_even_def Let_def)
  from u s0 once twice s1 s2 rest show ?thesis
    unfolding m_def by blast
qed

text \<open>
  Claim C10. \<open>dreamStateProcessing\<close> changes no field other than \<open>importance_score\<close> and
  \<open>dream_state\<close>: the store keeps its length, and position by position the identifier,
  owner, title, content, embedding, emotion, both time stamps, usage count, decay rate,
  tags, source type and write method of each record are what they were, so that no record
  is added or removed.
\<close>

theorem dreamStateProcessing_frame:
  "length (dreamStateProcessing memories) = length memories \<and>
   map unchanged_fields (dreamStateProcessing memories) = map unchanged_fields memories"
proof -
  have one: "unchanged_fields (consolidated memory) = unchanged_fields memory" for memory
    by (simp add: unchanged_fields_def consolidated_def)
  have "map unchanged_fields (map consolidated memories) = map unchanged_fields memories"
    by (induction memories) (simp_all add: one)
  then show ?thesis by (simp add: dreamStateProcessing_map)
qed

text \<open>
  Each operation keeps the invariant of the store, and so every store built from the
  empty one has it.
\<close>

lemma createMemory_ok:
  "store_ok memories \<Longrightarrow>
   store_ok (snd (createMemory extractContextTags now id_now random title' content'
                    emotion sourceType writeMethod memories))"
  by (simp add: store_ok_def createMemory_def Let_def record_ok_def detectImportance_range)

lemma accessed_ok:
  assumes "record_ok memory"
  shows "record_ok (accessed now memory)"
proof -
  have "1 \<le> usage_count memory + 1" using assms by (simp add: record_ok_def)
  then have "binary64 1 \<le> js_add (usage_count memory) 1"
    unfolding js_add_def by (rule binary64_mono)
  then show ?thesis
    using assms by (simp add: record_ok_def accessed_def binary64_one js_add_def binary64_nonneg)
qed

lemma accessMemory_ok:
  assumes "store_ok memories"
  shows "store_ok (snd (accessMemory now memoryId memories))"
proof (cases "List.extract (\<lambda>m. memory_id m = memoryId) memories")
  case None
  then show ?thesis using assms by (simp add: accessMemory_def)
next
  case (Some r)
  obtain before memory after where r: "r = (before, memory, after)" by (cases r)
  from Some r have m: "memories = before @ memory # after"
    by (simp add: extract_Some_iff)
  have "snd (accessMemory now memoryId memories) = before @ accessed now memory # after"
    using Some r by (simp add: accessMemory_def accessed_def Let_def)
  then show ?thesis using assms m accessed_ok [of memory now] by (simp add: store_ok_def)
qed

lemma consolidated_ok: "record_ok memory \<Longrightarrow> record_ok (consolidated memory)"
  by (simp add: record_ok_def consolidated_def js_add_def binary64_nonneg)

lemma dreamStateProcessing_ok:
  "store_ok memories \<Longrightarrow> store_ok (dreamStateProcessing memories)"
  by (simp add: store_ok_def dreamStateProcessing_map list_all_iff consolidated_ok)

lemma retrieveMemories_store: "snd (retrieveMemories now query memories) = memories"
  by (simp add: retrieveMemories_def)

lemma reachable_ok: "reachable memories \<Longrightarrow> store_ok memories"
proof (induction rule: reachable.induct)
  case initial
  show ?case by (simp add: store_ok_def)
next
  case (create memories extractContextTags now id_now random title' content' emotion sourceType writeMethod)
  then show ?case by (simp add: createMemory_ok)
next
  case (access memories now memoryId)
  then show ?case by (simp add: accessMemory_ok)
next
  case (retrieve memories now query)
  then show ?case by (simp add: retrieveMemories_store)
next
  case (consolidate memories)
  then show ?case by (simp add: dreamStateProcessing_ok)
qed

lemma scenario_store_ok: "store_ok [scenario_memory]"
  by (simp add: store_ok_def record_ok_def scenario_memory_def createMemory_def Let_def
        detectImportance_range)

lemma scenario_reachable: "reachable [scenario_memory]"
proof -
  have "reachable (snd (createMemory (\<lambda>c. []) 1700000000000 1700000000001 ''k3j9x0q2z''
            ''Login'' ''This is urgent, remember the password!'' (Some Anxious) None None []))"
    by (rule reachable.create) (rule reachable.initial)
  then show ?thesis by (simp add: scenario_memory_def createMemory_def Let_def)
qed

text \<open>
  Claim C9. In every store that the operations build from the empty one, each record has a
  score between 0 and 1 and a usage count of at least 1; and each operation that returns a
  store (\<open>createMemory\<close>, \<open>accessMemory\<close>, \<open>retrieveMemories\<close>, \<open>dreamStateProcessing\<close>)
  keeps these two properties of all records.
\<close>

theorem store_invariant:
  "(reachable memories \<longrightarrow> store_ok memories) \<and>
   (store_ok memories \<longrightarrow>
      store_ok (snd (createMemory extractContextTags now id_now random title' content'
                       emotion sourceType writeMethod memories)) \<and>
      store_ok (snd (accessMemory now memoryId memories)) \<and>
      store_ok (snd (retrieveMemories now query memories)) \<and>
      store_ok (dreamStateProcessing memories))"
  by (simp add: reachable_ok createMemory_ok accessMemory_ok dreamStateProcessing_ok
        retrieveMemories_store)

theorem store_invariant_witness:
  "reachable [scenario_memory] \<and> store_ok [scenario_memory] \<and>
   store_ok (snd (createMemory (\<lambda>c. []) 1700000000600 1700000000601 ''a1b2c3d4e''
                    ''Note'' ''I love this secret'' None None None [scenario_memory])) \<and>
   store_ok (snd (accessMemory 1700000000600 ''mem_1700000000001_k3j9x0q2z'' [scenario_memory])) \<and>
   store_ok (snd (retrieveMemories 1700000000600
      \<lparr>query_content = None, query_emotion = None, query_context_tags = None,
        min_importance = None, limit = Some 5\<rparr> [scenario_memory])) \<and>
   store_ok (dreamStateProcessing [scenario_memory])"
  using store_invariant [of "[scenario_memory]" "\<lambda>c. []" 1700000000600 1700000000601
      "''a1b2c3d4e''" "''Note''" "''I love this secret''" None None None
      "''mem_1700000000001_k3j9x0q2z''"
      "\<lparr>query_content = None, query_emotion = None, query_context_tags = None,
        min_importance = None, limit = Some 5\<rparr>"]
    scenario_reachable scenario_store_ok
  by simp

section \<open>The query engine\<close>

text \<open>
  Claim C8. On the empty store \<open>getMemoryStats\<close> returns a total of 0, 0 active, 0
  decayed and 0 recently used records and an average importance of 0: the quotient
  \<^verbatim>\<open>0 / 0\<close> is \<^verbatim>\<open>NaN\<close>, which \<^verbatim>\<open>|| 0\<close> replaces by 0, and nothing fails.
\<close>

theorem getMemoryStats_empty:
  "total_memories (getMemoryStats now []) = 0 \<and>
   active_memories (getMemoryStats now []) = 0 \<and>
   decayed_memories (getMemoryStats now []) = 0 \<and>
   average_importance (getMemoryStats now []) = 0 \<and>
   recent_activity (getMemoryStats now []) = 0"
proof -
  have quotient: "js_div 0 0 = None"
    by (simp add: js_div_def)
  have "average_importance (getMemoryStats now []) = or_default (js_div 0 0) 0"
    by (simp add: getMemoryStats_def)
  then have "average_importance (getMemoryStats now []) = or_default None 0"
    by (simp only: quotient)
  then have average: "average_importance (getMemoryStats now []) = 0"
    by (simp add: or_default_def)
  have counts:
    "total_memories (getMemoryStats now []) = 0"
    "active_memories (getMemoryStats now []) = 0"
    "decayed_memories (getMemoryStats now []) = 0"
    "recent_activity (getMemoryStats now []) = 0"
    by (simp_all add: getMemoryStats_def)
  from counts average show ?thesis by simp
qed

text \<open>
  Insertion keeps the length, the elements and the order of a ranking; the comparator of
  \<open>retrieveMemories\<close> is not positive exactly when its first argument may stand before
  the second, since rounding keeps the sign of the difference.
\<close>

lemma length_insert_by: "length (insert_by cmp x ys) = Suc (length ys)"
  by (induction ys) simp_all

lemma set_insert_by: "set (insert_by cmp x ys) = insert x (set ys)"
  by (induction ys) auto

lemma length_sort_by: "length (sort_by cmp xs) = length xs"
  by (induction xs) (simp_all add: sort_by_def length_insert_by)

lemma set_sort_by: "set (sort_by cmp xs) = set xs"
  by (induction xs) (simp_all add: sort_by_def set_insert_by)

lemma rank_cmp: "js_sub (current_importance b) (current_importance a) \<le> 0 \<longleftrightarrow> rank_order a b"
  by (simp add: js_sub_def binary64_le_zero_iff rank_order_def)

lemma sorted_insert_by:
  assumes "sorted_wrt rank_order ys"
  shows "sorted_wrt rank_order
           (insert_by (\<lambda>a b. js_sub (current_importance b) (current_importance a)) x ys)"
  using assms
proof (induction ys)
  case Nil
  then show ?case by simp
next
  case (Cons y ys)
  show ?case
  proof (cases "rank_order x y")
    case True
    have "rank_order x z" if "z \<in> set ys" for z
      using that True Cons.prems by (auto simp add: rank_order_def)
    then show ?thesis using True Cons.prems by (simp add: rank_cmp)
  next
    case False
    then have "rank_order y x" by (simp add: rank_order_def)
    then show ?thesis using False Cons by (simp add: rank_cmp set_insert_by)
  qed
qed

lemma sorted_sort_by:
  "sorted_wrt rank_order
     (sort_by (\<lambda>a b. js_sub (current_importance b) (current_importance a)) xs)"
  by (induction xs) (simp_all add: sort_by_def sorted_insert_by)

lemma current_importance_with:
  "current_importance (with_current_importance now memory) = calculateDecay now memory"
  by (simp add: with_current_importance_def MemoryRecord.extend_def RankedMemory.fields_def)

lemma truncate_with:
  "MemoryRecord.truncate (with_current_importance now memory) = memory"
  by (simp add: with_current_importance_def MemoryRecord.extend_def MemoryRecord.truncate_def
        RankedMemory.fields_def)

lemma calculateDecay_with:
  "calculateDecay now' (with_current_importance now memory) = calculateDecay now' memory"
  by (simp add: calculateDecay_def with_current_importance_def MemoryRecord.extend_def
        RankedMemory.fields_def)

lemma matches_no_filter: "matches (no_filter l) memory"
  by (simp add: matches_def no_filter_def or_default_def)

lemma slice0_pos: "0 \<le> e \<Longrightarrow> slice0 xs e = take (nat e) xs"
  by (simp add: slice0_def)

lemma length_ranked:
  "length (sort_by cmp (filter P (map f memories))) \<le> length memories"
  using length_filter_le [of P "map f memories"] by (simp add: length_sort_by)

lemma ranked_scenario:
  "sort_by (\<lambda>a b. js_sub (current_importance b) (current_importance a))
     [with_current_importance 1700000000000 plain_memory,
      with_current_importance 1700000000000 scenario_memory] =
   [with_current_importance 1700000000000 scenario_memory,
    with_current_importance 1700000000000 plain_memory]"
  by (simp add: sort_by_def js_sub_def binary64_le_zero_iff current_importance_with
        scenario_decay plain_decay)

text \<open>
  Claim C5. For every store and every limit \<open>N\<close> of at least 1, \<open>retrieveMemories\<close>
  returns at most \<open>N\<close> records, in the order of non-increasing effective importance;
  each of them is a copy of a record of the store that carries the decayed score of that
  record at the time of the call; and the store is left as it was. With no filter, the
  result has \<open>N\<close> records, or all the records of the store when there are fewer.
\<close>

theorem retrieveMemories_ranked:
  assumes "limit query = Some N" and "1 \<le> N"
  shows "length (fst (retrieveMemories now query memories)) \<le> nat N \<and>
         sorted_wrt rank_order (fst (retrieveMemories now query memories)) \<and>
         (\<forall>m \<in> set (fst (retrieveMemories now query memories)).
            MemoryRecord.truncate m \<in> set memories \<and>
            current_importance m = calculateDecay now m) \<and>
         snd (retrieveMemories now query memories) = memories \<and>
         length (fst (retrieveMemories now (no_filter (Some N)) memories)) =
           min (nat N) (length memories)"
proof -
  define ranked where
    "ranked q = sort_by (\<lambda>a b. js_sub (current_importance b) (current_importance a))
       (filter (matches q) (map (with_current_importance now) memories))" for q
  have r: "fst (retrieveMemories now query memories) = take (nat N) (ranked query)"
    using assms by (simp add: retrieveMemories_def ranked_def or_default_def slice0_pos)
  have r0: "fst (retrieveMemories now (no_filter (Some N)) memories) =
      take (nat N) (ranked (no_filter (Some N)))"
    using assms by (simp add: retrieveMemories_def ranked_def or_default_def slice0_pos no_filter_def)
  have "length (ranked (no_filter (Some N))) = length memories"
    by (simp add: ranked_def length_sort_by matches_no_filter)
  then have l0: "length (fst (retrieveMemories now (no_filter (Some N)) memories)) =
      min (nat N) (length memories)"
    by (simp add: r0 min.commute)
  have s: "sorted_wrt rank_order (take (nat N) (ranked query))"
    unfolding ranked_def by (intro sorted_wrt_take sorted_sort_by)
  have "set (take (nat N) (ranked query)) \<subseteq> with_current_importance now ` set memories"
    using set_take_subset [of "nat N" "ranked query"]
    by (auto simp add: ranked_def set_sort_by)
  then have c: "\<forall>m \<in> set (take (nat N) (ranked query)).
      MemoryRecord.truncate m \<in> set memories \<and> current_importance m = calculateDecay now m"
    by (auto simp add: truncate_with current_importance_with calculateDecay_with)
  show ?thesis
    using s c l0 by (simp add: r retrieveMemories_store)
qed

theorem retrieveMemories_ranked_witness:
  "limit (no_filter (Some 1)) = Some 1 \<and> (1::int) \<le> 1 \<and>
   fst (retrieveMemories 1700000000000 (no_filter (Some 1)) [plain_memory, scenario_memory]) =
     [with_current_importance 1700000000000 scenario_memory] \<and>
   length (fst (retrieveMemories 1700000000000 (no_filter (Some 1))
                  [plain_memory, scenario_memory])) \<le> nat 1 \<and>
   sorted_wrt rank_order
     (fst (retrieveMemories 1700000000000 (no_filter (Some 1)) [plain_memory, scenario_memory])) \<and>
   snd (retrieveMemories 1700000000000 (no_filter (Some 1)) [plain_memory, scenario_memory]) =
     [plain_memory, scenario_memory]"
proof -
  have l: "limit (no_filter (Some 1)) = Some 1" by (simp add: no_filter_def)
  have e: "fst (retrieveMemories 1700000000000 (no_filter (Some 1))
                  [plain_memory, scenario_memory]) =
      [with_current_importance 1700000000000 scenario_memory]"
    by (simp add: retrieveMemories_def matches_no_filter ranked_scenario l or_default_def
          slice0_def)
  from retrieveMemories_ranked [OF l, of 1700000000000 "[plain_memory, scenario_memory]"] l e
  show ?thesis by simp
qed

text \<open>
  Claim C1, as stated, fails: neither method checks its input. \<open>createMemory\<close> with an
  empty title and an empty content appends a record with these to the store and returns
  it; \<open>retrieveMemories\<close> with the limit 0 returns both records of a store of two, and
  with the limit -1 the first of the two in rank.
\<close>

theorem input_validation_counterexample:
  "snd (createMemory (\<lambda>c. []) 1700000000000 1700000000003 ''q1w2e3r4t'' [] [] None None None
          [scenario_memory]) =
     [scenario_memory,
      fst (createMemory (\<lambda>c. []) 1700000000000 1700000000003 ''q1w2e3r4t'' [] [] None None None
             [scenario_memory])] \<and>
   title (fst (createMemory (\<lambda>c. []) 1700000000000 1700000000003 ''q1w2e3r4t'' [] [] None None
                 None [scenario_memory])) = [] \<and>
   content (fst (createMemory (\<lambda>c. []) 1700000000000 1700000000003 ''q1w2e3r4t'' [] [] None None
                   None [scenario_memory])) = [] \<and>
   fst (retrieveMemories 1700000000000 (no_filter (Some 0)) [plain_memory, scenario_memory]) =
     [with_current_importance 1700000000000 scenario_memory,
      with_current_importance 1700000000000 plain_memory] \<and>
   fst (retrieveMemories 1700000000000 (no_filter (Some (- 1))) [plain_memory, scenario_memory]) =
     [with_current_importance 1700000000000 scenario_memory]"
proof -
  have l: "limit (no_filter l) = l" for l by (simp add: no_filter_def)
  show ?thesis
    by (simp add: createMemory_def Let_def retrieveMemories_def matches_no_filter ranked_scenario
          l or_default_def slice0_def)
qed

text \<open>
  Claim C1, amended. \<open>createMemory\<close> accepts an empty title and an empty content as it
  accepts any other: the result is the new record, with that title and content, and the
  store with the record appended. \<open>retrieveMemories\<close> treats the limit 0 as the default
  limit of 10, and a negative limit \<open>- k\<close> as the ranked matches without their last \<open>k\<close>.
  Neither method has a failure for invalid input.
\<close>

theorem no_input_validation:
  "snd (createMemory extractContextTags now id_now random [] content' emotion sourceType
          writeMethod memories) =
     memories @ [fst (createMemory extractContextTags now id_now random [] content' emotion
                        sourceType writeMethod memories)] \<and>
   title (fst (createMemory extractContextTags now id_now random [] content' emotion sourceType
                 writeMethod memories)) = [] \<and>
   snd (createMemory extractContextTags now id_now random title' [] emotion sourceType
          writeMethod memories) =
     memories @ [fst (createMemory extractContextTags now id_now random title' [] emotion
                        sourceType writeMethod memories)] \<and>
   content (fst (createMemory extractContextTags now id_now random title' [] emotion sourceType
                   writeMethod memories)) = [] \<and>
   retrieveMemories now (query\<lparr>limit := Some 0\<rparr>) memories =
     retrieveMemories now (query\<lparr>limit := Some 10\<rparr>) memories \<and>
   fst (retrieveMemories now (query\<lparr>limit := Some (- int (Suc k))\<rparr>) memories) =
     (let ranked = fst (retrieveMemories now
                          (query\<lparr>limit := Some (int (Suc (length memories)))\<rparr>) memories)
      in take (length ranked - Suc k) ranked)"
proof -
  have m: "matches (query\<lparr>limit := l\<rparr>) = matches query" for l
    by (rule ext) (simp add: matches_def)
  define ranked where
    "ranked = sort_by (\<lambda>a b. js_sub (current_importance b) (current_importance a))
       (filter (matches query) (map (with_current_importance now) memories))"
  have len: "length ranked \<le> length memories"
    unfolding ranked_def by (rule length_ranked)
  have all: "fst (retrieveMemories now (query\<lparr>limit := Some (int (Suc (length memories)))\<rparr>)
      memories) = ranked"
    using len by (simp add: retrieveMemories_def m ranked_def [symmetric] or_default_def slice0_def)
  have n: "nat (int (length ranked) + (- 1 - int k)) = length ranked - Suc k"
    by linarith
  have neg: "fst (retrieveMemories now (query\<lparr>limit := Some (- int (Suc k))\<rparr>) memories) =
      take (length ranked - Suc k) ranked"
    by (simp add: retrieveMemories_def m ranked_def [symmetric] or_default_def slice0_def n)
  have zero: "retrieveMemories now (query\<lparr>limit := Some 0\<rparr>) memories =
      retrieveMemories now (query\<lparr>limit := Some 10\<rparr>) memories"
    by (simp add: retrieveMemories_def m or_default_def)
  show ?thesis
    using all neg zero by (simp add: createMemory_def Let_def)
qed

end
